theory Spec2Isabelle
  imports
    Complex_Main
    "HOL-Library.AList"
    "HOL-Library.Multiset"
    "HOL-Library.Char_ord"
    "HOL-Library.List_Lexorder"
begin

section \<open>Data model of the persisted run records\<close>

text \<open>
  The run records are the JSON documents that \<^verbatim>\<open>run-benchmark.js\<close> writes and
  \<^verbatim>\<open>compare-runs.js\<close> reads back.  A JSON number is finite, and on finite numbers
  \<^verbatim>\<open>Math.min\<close>, \<^verbatim>\<open>Math.max\<close> and \<^verbatim>\<open>===\<close> agree with the order and equality of the
  rationals they denote; \<^verbatim>\<open>parseFloat\<close> of a number is that number.  Metric values are
  therefore rationals.  A timestamp is kept as the time value (milliseconds since the
  epoch) that \<^verbatim>\<open>new Date(timestamp)\<close> yields for the stored ISO string, since the code
  uses stored timestamps only through \<^verbatim>\<open>new Date\<close>.  An optional JSON field is an
  \<open>option\<close>; \<open>None\<close> is JavaScript's \<^verbatim>\<open>undefined\<close>.  The URL of a target is
  such a field: \<^verbatim>\<open>run-benchmark.js\<close> stores \<^verbatim>\<open>target.url\<close>, which is undefined when
  the target it found is not a configuration entry (see \<open>lookupTarget\<close> below).
  The text of a file is the list of its UTF-16 code units, as
  \<^verbatim>\<open>readFileSync(f, 'utf8')\<close> returns them.
\<close>

type_synonym num = rat
type_synonym instant = int
type_synonym jstring = "nat list"

record probe_test =
  t_name :: string
  t_success :: bool
  t_duration :: "num option"
  t_domContentLoaded :: "num option"
  t_domInteractive :: "num option"
  t_loadComplete :: "num option"
  t_ttfb :: "num option"
  t_dns :: "num option"
  t_tcp :: "num option"
  t_download :: "num option"

record browser_result =
  pw_error :: "string option"
  pw_tests :: "probe_test list"

record load_result =
  k6_target :: string
  k6_url :: "string option"
  k6_error :: "string option"
  k6_metricsFile :: "string option"
  k6_totalRequests :: "nat option"

record target_result =
  tr_target :: string
  tr_url :: "string option"
  tr_playwright :: "browser_result option"
  tr_k6 :: "load_result option"

record run =
  run_runId :: string
  run_timestamp :: instant
  run_targets :: "target_result list"

text \<open>Truthiness of an optional string field: \<^verbatim>\<open>undefined\<close> and \<^verbatim>\<open>''\<close> are falsy.\<close>

definition truthy :: "string option \<Rightarrow> bool" where
  "truthy s = (case s of None \<Rightarrow> False | Some v \<Rightarrow> v \<noteq> [])"

section \<open>compare-runs.js\<close>

subsection \<open>extractMetrics\<close>

datatype metric =
  pageLoad | domContentLoaded | domInteractive | loadComplete | ttfb | dns | tcp | download

text \<open>
  \<^verbatim>\<open>targetMetrics.playwright\<close> is an object indexed by metric name; assigning
  \<^verbatim>\<open>undefined\<close> to a property leaves it \<^verbatim>\<open>=== undefined\<close> on lookup, which is \<open>None\<close>
  here.  \<^verbatim>\<open>targetMetrics.k6.hasResults\<close> is either \<^verbatim>\<open>true\<close> or absent.
\<close>

record target_metrics =
  tm_target :: string
  tm_url :: "string option"
  tm_playwright :: "metric \<Rightarrow> num option"
  tm_hasResults :: bool
  tm_metricsFile :: "string option"

definition extractTest :: "(metric \<Rightarrow> num option) \<Rightarrow> probe_test \<Rightarrow> (metric \<Rightarrow> num option)" where
  "extractTest pw t =
     (if t_name t = ''page_load'' then pw(pageLoad := t_duration t)
      else if t_name t = ''dom_metrics'' then
        pw(domContentLoaded := t_domContentLoaded t,
           domInteractive := t_domInteractive t,
           loadComplete := t_loadComplete t)
      else if t_name t = ''network_timing'' then
        pw(ttfb := t_ttfb t, dns := t_dns t, tcp := t_tcp t, download := t_download t)
      else pw)"

definition extractPlaywright :: "browser_result option \<Rightarrow> (metric \<Rightarrow> num option)" where
  "extractPlaywright p =
     (case p of
        None \<Rightarrow> (\<lambda>m. None)
      | Some b \<Rightarrow>
          if \<not> truthy (pw_error b) then foldl extractTest (\<lambda>m. None) (pw_tests b)
          else (\<lambda>m. None))"

text \<open>Lines 46 to 49: the only thing kept of a load result is whether it has results.\<close>

definition k6HasResults :: "load_result option \<Rightarrow> bool" where
  "k6HasResults k =
     (case k of
        None \<Rightarrow> False
      | Some r \<Rightarrow> \<not> truthy (k6_error r) \<and> truthy (k6_metricsFile r))"

definition extractTarget :: "target_result \<Rightarrow> target_metrics" where
  "extractTarget t =
     \<lparr> tm_target = tr_target t,
       tm_url = tr_url t,
       tm_playwright = extractPlaywright (tr_playwright t),
       tm_hasResults = k6HasResults (tr_k6 t),
       tm_metricsFile = (if k6HasResults (tr_k6 t)
                         then (case tr_k6 t of None \<Rightarrow> None | Some r \<Rightarrow> k6_metricsFile r)
                         else None) \<rparr>"

text \<open>
  The \<^verbatim>\<open>metrics\<close> object is an ordinary object, created as \<^verbatim>\<open>{}\<close> and used as a
  dictionary from target key to target metrics.  Its own properties are an association
  list in insertion order; assigning to a key that is already there replaces the value in
  place.  (Array-index-like keys, which JavaScript enumerates first, are taken not to
  occur; no statement below depends on the order of the keys.)  Its prototype is
  \<^verbatim>\<open>Object.prototype\<close>, unless an assignment to the key \<^verbatim>\<open>__proto__\<close> has replaced it:
  that assignment runs the setter of \<^verbatim>\<open>Object.prototype\<close> and makes the assigned
  target-metrics object the prototype, instead of creating an own property.
\<close>

record metrics_object =
  mo_own :: "(string \<times> target_metrics) list"
  mo_proto :: "target_metrics option"

text \<open>The names of the members of \<^verbatim>\<open>Object.prototype\<close> other than \<^verbatim>\<open>__proto__\<close>.\<close>

definition objectPrototypeNames :: "string list" where
  "objectPrototypeNames =
     [''constructor'', ''__defineGetter__'', ''__defineSetter__'', ''hasOwnProperty'',
      ''__lookupGetter__'', ''__lookupSetter__'', ''isPrototypeOf'', ''propertyIsEnumerable'',
      ''toString'', ''valueOf'', ''toLocaleString'']"

text \<open>Line 51, \<^verbatim>\<open>metrics[target.target] = targetMetrics\<close>.\<close>

definition setProperty :: "metrics_object \<Rightarrow> string \<Rightarrow> target_metrics \<Rightarrow> metrics_object" where
  "setProperty metrics key tm =
     (if key = ''__proto__'' \<and> map_of (mo_own metrics) key = None
      then metrics\<lparr>mo_proto := Some tm\<rparr>
      else metrics\<lparr>mo_own := AList.update key tm (mo_own metrics)\<rparr>)"

definition extractMetrics :: "run \<Rightarrow> metrics_object" where
  "extractMetrics results =
     foldl (\<lambda>metrics t. setProperty metrics (tr_target t) (extractTarget t))
       \<lparr> mo_own = [], mo_proto = None \<rparr>
       (run_targets results)"

text \<open>
  The value of \<^verbatim>\<open>run.metrics[target]\<close>: an own property if there is one, and otherwise
  what the prototype chain gives.  A target-metrics object that has become the prototype
  lends its four properties (\<^verbatim>\<open>target\<close> and \<^verbatim>\<open>url\<close>, which are strings, and
  \<^verbatim>\<open>playwright\<close> and \<^verbatim>\<open>k6\<close>, which are objects); the key \<^verbatim>\<open>__proto__\<close> gives the
  prototype itself; the other members of \<^verbatim>\<open>Object.prototype\<close> are functions.
  \<open>OtherObject\<close> stands for any object or function that is not a target-metrics object:
  it is truthy, and it has no property \<^verbatim>\<open>url\<close>, \<^verbatim>\<open>playwright\<close> or \<^verbatim>\<open>k6\<close>.
\<close>

datatype property_value = Undefined | Metrics target_metrics | StringValue string | OtherObject

definition getProperty :: "metrics_object \<Rightarrow> string \<Rightarrow> property_value" where
  "getProperty metrics key =
     (case map_of (mo_own metrics) key of
        Some tm \<Rightarrow> Metrics tm
      | None \<Rightarrow>
          (case mo_proto metrics of
             Some p \<Rightarrow>
               if key = ''target'' then StringValue (tm_target p)
               else if key = ''url'' then
                 (case tm_url p of Some u \<Rightarrow> StringValue u | None \<Rightarrow> Undefined)
               else if key = ''playwright'' \<or> key = ''k6'' then OtherObject
               else if key = ''__proto__'' then Metrics p
               else if key \<in> set objectPrototypeNames then OtherObject
               else Undefined
           | None \<Rightarrow>
               if key = ''__proto__'' \<or> key \<in> set objectPrototypeNames then OtherObject
               else Undefined))"

definition truthyValue :: "property_value \<Rightarrow> bool" where
  "truthyValue v =
     (case v of
        Undefined \<Rightarrow> False
      | Metrics tm \<Rightarrow> True
      | StringValue str \<Rightarrow> str \<noteq> []
      | OtherObject \<Rightarrow> True)"

definition metricsOf :: "property_value \<Rightarrow> target_metrics option" where
  "metricsOf v = (case v of Metrics tm \<Rightarrow> Some tm | _ \<Rightarrow> None)"

subsection \<open>loadRun and the loading loop of compareRuns\<close>

text \<open>
  A JSON file on disk: it is not there, its text is not JSON, or it parses to a value.
\<close>

datatype 'a disk_file = Missing | Unparseable jstring | Content 'a

datatype load_error = RunNotFound string | JsonSyntaxError

definition loadRun :: "(string \<Rightarrow> run disk_file) \<Rightarrow> string \<Rightarrow> load_error + run" where
  "loadRun runsDir runId =
     (case runsDir runId of
        Missing \<Rightarrow> Inl (RunNotFound runId)
      | Unparseable text \<Rightarrow> Inl JsonSyntaxError
      | Content r \<Rightarrow> Inr r)"

record loaded_run =
  l_runId :: string
  l_timestamp :: instant
  l_metrics :: metrics_object

text \<open>
  The ways compareRuns ends the process without writing the report: the two calls of
  \<^verbatim>\<open>process.exit(1)\<close>, and the TypeError of reading a property of \<^verbatim>\<open>undefined\<close>,
  which nothing catches.
\<close>

datatype compare_error = NeedTwoRuns | FailedToLoad string | TypeError

fun loadRuns :: "(string \<Rightarrow> run disk_file) \<Rightarrow> string list \<Rightarrow> compare_error + loaded_run list" where
  "loadRuns runsDir [] = Inr []"
| "loadRuns runsDir (runId # runIds) =
     (case loadRun runsDir runId of
        Inl e \<Rightarrow> Inl (FailedToLoad runId)
      | Inr r \<Rightarrow>
          (case loadRuns runsDir runIds of
             Inl e \<Rightarrow> Inl e
           | Inr rs \<Rightarrow>
               Inr (\<lparr> l_runId = runId, l_timestamp = run_timestamp r,
                      l_metrics = extractMetrics r \<rparr> # rs)))"

text \<open>
  Line 83.  \<^verbatim>\<open>Array.prototype.sort\<close> is stable, and the comparator is the difference of
  the two time values, so the sort is the stable sort by time value.
\<close>

definition sortRuns :: "loaded_run list \<Rightarrow> loaded_run list" where
  "sortRuns runs = sort_key l_timestamp runs"

text \<open>
  Lines 86 to 89: \<^verbatim>\<open>Object.keys\<close> gives the own keys, and a \<^verbatim>\<open>Set\<close> keeps the first
  insertion of each key.
\<close>

definition setAdd :: "string list \<Rightarrow> string \<Rightarrow> string list" where
  "setAdd s k = (if k \<in> set s then s else s @ [k])"

definition allTargets :: "loaded_run list \<Rightarrow> string list" where
  "allTargets runs =
     foldl (\<lambda>s run. foldl setAdd s (map fst (mo_own (l_metrics run)))) [] runs"

subsection \<open>The report\<close>

text \<open>
  Each element pushed on \<^verbatim>\<open>comparisonLines\<close> is one constructor.  A table cell is the
  value with its marker: \<open>Best\<close> is the bold cell with the lightning sign (fastest),
  \<open>Worst\<close> the italic cell (slowest), \<open>Plain\<close> the bare value.  The console output
  carries the same markers under the same conditions (line 164) and is not modelled
  separately.
\<close>

datatype cell = Plain num | Best num | Worst num

datatype cline =
    Title
  | Blank
  | ComparedRuns "string list"
  | TargetHeading string
  | NotAllRunsNote
  | UrlLine string
  | PlaywrightHeading
  | TableHeader "instant list"
  | TableRule nat
  | MetricRow metric "cell list"
  | K6Heading
  | K6TableHeader
  | K6TableRule
  | K6Row instant bool

definition playwrightMetrics :: "metric list" where
  "playwrightMetrics = [pageLoad, domContentLoaded, domInteractive, ttfb, dns, tcp, download]"

text \<open>Lines 144 to 156.  \<open>n\<close> is \<^verbatim>\<open>runs.length\<close>.\<close>

definition display :: "nat \<Rightarrow> num \<Rightarrow> num \<Rightarrow> num \<Rightarrow> cell" where
  "display n mn mx v =
     (if v = mn \<and> n > 1 then Best v
      else if v = mx \<and> n > 1 then Worst v
      else Plain v)"

fun metricCells :: "nat \<Rightarrow> num list \<Rightarrow> cell list" where
  "metricCells n [] = []"
| "metricCells n (v # vs) =
     (let mn = fold min vs v; mx = fold max vs v
      in map (display n mn mx) (v # vs))"

text \<open>Lines 135 to 168 for one metric: the row, or nothing.\<close>

definition metricRow :: "nat \<Rightarrow> target_metrics list \<Rightarrow> metric \<Rightarrow> cline list" where
  "metricRow n tms m =
     (let values = map (\<lambda>tm. tm_playwright tm m) tms
      in case those values of
           None \<Rightarrow> []
         | Some vs \<Rightarrow> [MetricRow m (metricCells n vs)])"

text \<open>Line 103: the test is the truthiness of \<^verbatim>\<open>run.metrics[target]\<close>.\<close>

definition hasTarget :: "loaded_run list \<Rightarrow> string \<Rightarrow> bool" where
  "hasTarget runs target =
     list_all (\<lambda>run. truthyValue (getProperty (l_metrics run) target)) runs"

text \<open>
  The three blocks of the loop body for a target that every run has, given the runs and
  their metrics \<open>tms\<close> for the target: the URL (lines 111 to 113), the Playwright table
  (lines 115 to 170) and the k6 table (lines 172 to 188).
\<close>

definition urlLines :: "target_metrics list \<Rightarrow> cline list" where
  "urlLines tms =
     (case tms of
        [] \<Rightarrow> []
      | tm0 # _ \<Rightarrow>
          [UrlLine (case tm_url tm0 of Some u \<Rightarrow> u | None \<Rightarrow> ''undefined''), Blank])"

definition playwrightTable :: "loaded_run list \<Rightarrow> target_metrics list \<Rightarrow> cline list" where
  "playwrightTable runs tms =
     (let availableMetrics =
            filter (\<lambda>m. list_ex (\<lambda>tm. tm_playwright tm m \<noteq> None) tms) playwrightMetrics
      in if availableMetrics \<noteq> [] then
           [PlaywrightHeading, Blank,
            TableHeader (map l_timestamp runs), TableRule (length runs + 1)] @
           concat (map (metricRow (length runs) tms) availableMetrics) @
           [Blank]
         else [])"

definition k6Table :: "loaded_run list \<Rightarrow> target_metrics list \<Rightarrow> cline list" where
  "k6Table runs tms =
     (let k6Status = map tm_hasResults tms
      in if list_ex (\<lambda>s. s) k6Status then
           [K6Heading, Blank, K6TableHeader, K6TableRule] @
           map (\<lambda>(run, s). K6Row (l_timestamp run) s) (zip runs k6Status) @
           [Blank]
         else [])"

text \<open>
  Lines 97 to 189 for one target.  When the test of line 103 passes, the values
  \<^verbatim>\<open>run.metrics[target]\<close> are read again.  If each of them is a target-metrics object,
  the three blocks follow.  If one of them is not (it was found on the prototype chain),
  its property \<^verbatim>\<open>playwright\<close> is undefined and reading \<^verbatim>\<open>playwright[metric]\<close> from it
  throws a TypeError: at line 118, when \<^verbatim>\<open>some\<close> reaches that run for a metric that no
  earlier run defines, and otherwise at line 136, where \<^verbatim>\<open>map\<close> reads every run for the
  first available metric.  Nothing catches it, and the report is not written.
\<close>

definition targetSection :: "loaded_run list \<Rightarrow> string \<Rightarrow> compare_error + cline list" where
  "targetSection runs target =
     (if \<not> hasTarget runs target
      then Inr ([TargetHeading target, Blank] @ [NotAllRunsNote, Blank])
      else
        case those (map (\<lambda>run. metricsOf (getProperty (l_metrics run) target)) runs) of
          None \<Rightarrow> Inl TypeError
        | Some tms \<Rightarrow>
            Inr ([TargetHeading target, Blank] @
                 urlLines tms @ playwrightTable runs tms @ k6Table runs tms))"

text \<open>Lines 58 to 83: the runs of the comparison, in the order of its columns.\<close>

definition loadAndSort ::
  "(string \<Rightarrow> run disk_file) \<Rightarrow> string list \<Rightarrow> compare_error + loaded_run list" where
  "loadAndSort runsDir runIds =
     (if length runIds < 2 then Inl NeedTwoRuns
      else
        case loadRuns runsDir runIds of
          Inl e \<Rightarrow> Inl e
        | Inr loaded \<Rightarrow> Inr (sortRuns loaded))"

text \<open>
  Lines 97 to 189: the sections of the targets in turn, up to the first one that throws.
\<close>

fun targetSections :: "loaded_run list \<Rightarrow> string list \<Rightarrow> compare_error + cline list" where
  "targetSections runs [] = Inr []"
| "targetSections runs (target # targets) =
     (case targetSection runs target of
        Inl e \<Rightarrow> Inl e
      | Inr section_lines \<Rightarrow>
          (case targetSections runs targets of
             Inl e \<Rightarrow> Inl e
           | Inr rest \<Rightarrow> Inr (section_lines @ rest)))"

text \<open>Lines 85 to 193: the content of \<^verbatim>\<open>comparisonLines\<close> when it is written out.\<close>

definition comparisonLines :: "string list \<Rightarrow> loaded_run list \<Rightarrow> compare_error + cline list" where
  "comparisonLines runIds runs =
     (case targetSections runs (allTargets runs) of
        Inl e \<Rightarrow> Inl e
      | Inr body \<Rightarrow> Inr ([Title, Blank, ComparedRuns runIds, Blank] @ body))"

definition compareRuns :: "(string \<Rightarrow> run disk_file) \<Rightarrow> string list \<Rightarrow> compare_error + cline list" where
  "compareRuns runsDir runIds =
     (case loadAndSort runsDir runIds of
        Inl e \<Rightarrow> Inl e
      | Inr runs \<Rightarrow> comparisonLines runIds runs)"

text \<open>
  Notions the statements below use: the target keys of a loaded run, which are the own keys
  of its \<^verbatim>\<open>metrics\<close> object; the value \<^verbatim>\<open>run.metrics[target].playwright[metric]\<close>
  and the flag \<^verbatim>\<open>run.metrics[target].k6.hasResults\<close> for a target key of the run; and
  the element that the loading loop pushes for a run id.
\<close>

definition runKeys :: "loaded_run \<Rightarrow> string set" where
  "runKeys run = fst ` set (mo_own (l_metrics run))"

definition metricValue :: "loaded_run \<Rightarrow> string \<Rightarrow> metric \<Rightarrow> num option" where
  "metricValue run target m =
     (case map_of (mo_own (l_metrics run)) target of
        None \<Rightarrow> None
      | Some tm \<Rightarrow> tm_playwright tm m)"


definition k6Available :: "loaded_run \<Rightarrow> string \<Rightarrow> bool" where
  "k6Available run target =
     (case map_of (mo_own (l_metrics run)) target of
        None \<Rightarrow> False
      | Some tm \<Rightarrow> tm_hasResults tm)"

section \<open>run-benchmark.js\<close>

subsection \<open>Strings\<close>

text \<open>
  \<^verbatim>\<open>s.split(c)\<close> for a one-character separator: the segments between the separators,
  never an empty array.  It is used on the ISO timestamp (characters) and on the text of
  the k6 output file (code units).
\<close>

fun splitOn :: "'a \<Rightarrow> 'a list \<Rightarrow> 'a list list" where
  "splitOn c [] = [[]]"
| "splitOn c (x # xs) =
     (if x = c then [] # splitOn c xs
      else (case splitOn c xs of [] \<Rightarrow> [[x]] | s # ss \<Rightarrow> (x # s) # ss))"

definition js :: "string \<Rightarrow> jstring" where
  "js s = map of_char s"

text \<open>The code units \<^verbatim>\<open>String.prototype.trim\<close> strips: WhiteSpace and LineTerminator.\<close>

definition isWhite :: "nat \<Rightarrow> bool" where
  "isWhite c =
     (c \<in> set [9, 10, 11, 12, 13, 32, 160, 5760, 8232, 8233, 8239, 8287, 12288, 65279]
      \<or> (8192 \<le> c \<and> c \<le> 8202))"

definition trim :: "jstring \<Rightarrow> jstring" where
  "trim s = rev (dropWhile isWhite (rev (dropWhile isWhite s)))"

subsection \<open>runK6Benchmark\<close>

text \<open>
  The parsed value of one line.  \<^verbatim>\<open>JSON.parse\<close> itself is a parameter of the model
  (\<open>None\<close> when it throws); \<open>isPoint\<close> is the filter \<^verbatim>\<open>m && m.type === 'Point'\<close>
  on the mapped array, whose \<^verbatim>\<open>null\<close> entries are the lines that did not parse.
  An object is the list of its own properties, each key once.
\<close>

datatype json =
    JNull
  | JBool bool
  | JNum rat
  | JStr jstring
  | JArr "json list"
  | JObj "(jstring \<times> json) list"

fun isPoint :: "json option \<Rightarrow> bool" where
  "isPoint (Some (JObj props)) = (map_of props (js ''type'') = Some (JStr (js ''Point'')))"
| "isPoint _ = False"

datatype raw_file = Absent | Unreadable | Text jstring

text \<open>Lines 65 to 84: the value of \<^verbatim>\<open>metrics\<close> after the inner try block.\<close>

definition k6Lines :: "jstring \<Rightarrow> jstring list" where
  "k6Lines rawResults = filter (\<lambda>line. trim line \<noteq> []) (splitOn 10 (trim rawResults))"

definition parseK6 :: "(jstring \<Rightarrow> json option) \<Rightarrow> raw_file \<Rightarrow> json option list" where
  "parseK6 JSON_parse f =
     (case f of
        Absent \<Rightarrow> []
      | Unreadable \<Rightarrow> []
      | Text rawResults \<Rightarrow>
          if trim rawResults \<noteq> []
          then filter isPoint (map JSON_parse (k6Lines rawResults))
          else [])"

text \<open>
  What \<^verbatim>\<open>execSync\<close> does with a command: the command runs and exits with status 0, and
  \<^verbatim>\<open>execSync\<close> returns; or the command is located and runs, and \<^verbatim>\<open>execSync\<close> throws
  (\<open>Threw\<close>: a non-zero exit status, a signal); or the shell cannot locate the command,
  which \<^verbatim>\<open>execSync\<close> also reports by throwing (\<open>NotFound\<close>).  The string is the message
  of the error thrown.  The host is what the three interactions of \<^verbatim>\<open>runK6Benchmark\<close>
  with it give.
\<close>

datatype exec_result = Returned | Threw string | NotFound string

record k6_host =
  h_version :: exec_result
  h_run :: exec_result
  h_output :: raw_file

text \<open>
  The k6 binary is located on the host when the shell finds the command \<^verbatim>\<open>k6 version\<close>,
  whatever the command then does.
\<close>

definition k6Located :: "k6_host \<Rightarrow> bool" where
  "k6Located host = (case h_version host of NotFound e \<Rightarrow> False | _ \<Rightarrow> True)"

text \<open>
  \<open>outputFile\<close> is the path computed at line 43.  The fields \<^verbatim>\<open>timestamp\<close>,
  \<^verbatim>\<open>summary.type\<close> and \<^verbatim>\<open>type\<close> of the result, which nothing reads, are left out.
  The catch block of lines 49 to 53 does not look at the error: any throw of
  \<^verbatim>\<open>k6 version\<close> gives null.
\<close>

definition runK6Benchmark ::
  "(jstring \<Rightarrow> json option) \<Rightarrow> k6_host \<Rightarrow> string \<Rightarrow> string option \<Rightarrow> string \<Rightarrow>
     load_result option" where
  "runK6Benchmark JSON_parse host targetName targetUrl outputFile =
     (case h_version host of
        Threw e \<Rightarrow> None
      | NotFound e \<Rightarrow> None
      | Returned \<Rightarrow>
          (case h_run host of
             Threw message \<Rightarrow>
               Some \<lparr> k6_target = targetName, k6_url = targetUrl, k6_error = Some message,
                      k6_metricsFile = None, k6_totalRequests = None \<rparr>
           | NotFound message \<Rightarrow>
               Some \<lparr> k6_target = targetName, k6_url = targetUrl, k6_error = Some message,
                      k6_metricsFile = None, k6_totalRequests = None \<rparr>
           | Returned \<Rightarrow>
               Some \<lparr> k6_target = targetName, k6_url = targetUrl, k6_error = None,
                      k6_metricsFile = Some outputFile,
                      k6_totalRequests = Some (length (parseK6 JSON_parse (h_output host))) \<rparr>))"

text \<open>
  The lines that \<^verbatim>\<open>runAllBenchmarks\<close> and the functions it calls write with
  \<^verbatim>\<open>console.error\<close>: line 122 for a target that is not found, and line 97 for a load
  run that failed, with the message of the error.  There is no other call of
  \<^verbatim>\<open>console.error\<close> in them.
\<close>

datatype error_line = UnknownTarget string | K6TestFailed string string

text \<open>What \<^verbatim>\<open>runK6Benchmark\<close> writes with \<^verbatim>\<open>console.error\<close>: line 97, in its outer catch block.\<close>

definition runK6BenchmarkErrors :: "k6_host \<Rightarrow> string \<Rightarrow> error_line list" where
  "runK6BenchmarkErrors host targetName =
     (case h_version host of
        Threw e \<Rightarrow> []
      | NotFound e \<Rightarrow> []
      | Returned \<Rightarrow>
          (case h_run host of
             Threw message \<Rightarrow> [K6TestFailed targetName message]
           | NotFound message \<Rightarrow> [K6TestFailed targetName message]
           | Returned \<Rightarrow> []))"

subsection \<open>runAllBenchmarks\<close>

record target_config =
  cfg_name :: string
  cfg_url :: string

text \<open>
  Line 121, \<^verbatim>\<open>targets[targetName]\<close>.  \<^verbatim>\<open>targets\<close> is the object that \<^verbatim>\<open>JSON.parse\<close>
  made of the configuration: a name finds its entry, if it has one, and otherwise a member
  of \<^verbatim>\<open>Object.prototype\<close>, if it names one.  Such a member is truthy and has no property
  \<^verbatim>\<open>url\<close>, so the loop benchmarks the name with an undefined URL.
\<close>

datatype target_lookup = Configured target_config | Inherited | NoTarget

definition lookupTarget :: "(string \<Rightarrow> target_config option) \<Rightarrow> string \<Rightarrow> target_lookup" where
  "lookupTarget targets targetName =
     (case targets targetName of
        Some target \<Rightarrow> Configured target
      | None \<Rightarrow>
          if targetName = ''__proto__'' \<or> targetName \<in> set objectPrototypeNames then Inherited
          else NoTarget)"

definition lookupUrl :: "target_lookup \<Rightarrow> string option" where
  "lookupUrl found = (case found of Configured target \<Rightarrow> Some (cfg_url target) | _ \<Rightarrow> None)"

text \<open>
  Lines 120 to 152.  \<open>playwright\<close> is \<^verbatim>\<open>runPlaywrightBenchmark\<close>: it resolves to a
  browser result or rejects, and a rejection ends \<^verbatim>\<open>runAllBenchmarks\<close>.  \<open>host\<close>
  gives the state of the host when the load probe of a target runs, and \<open>outputFile\<close>
  the path of its k6 output.  The state of the loop is \<^verbatim>\<open>allResults.targets\<close> and the
  lines written with \<^verbatim>\<open>console.error\<close> so far.
\<close>

record bench_env =
  env_targets :: "string \<Rightarrow> target_config option"
  env_playwright :: "string \<Rightarrow> string option \<Rightarrow> string + browser_result"
  env_JSON_parse :: "jstring \<Rightarrow> json option"
  env_host :: "string \<Rightarrow> k6_host"
  env_outputFile :: "string \<Rightarrow> string"

record loop_state =
  ls_results :: "target_result list"
  ls_errors :: "error_line list"

fun benchmarkTargets :: "bench_env \<Rightarrow> string list \<Rightarrow> loop_state \<Rightarrow> string + loop_state" where
  "benchmarkTargets env [] st = Inr st"
| "benchmarkTargets env (targetName # rest) st =
     (case lookupTarget (env_targets env) targetName of
        NoTarget \<Rightarrow>
          benchmarkTargets env rest (st\<lparr>ls_errors := ls_errors st @ [UnknownTarget targetName]\<rparr>)
      | found \<Rightarrow>
          (case env_playwright env targetName (lookupUrl found) of
             Inl rejection \<Rightarrow> Inl rejection
           | Inr playwrightResults \<Rightarrow>
               let k6Results =
                     runK6Benchmark (env_JSON_parse env) (env_host env targetName)
                       targetName (lookupUrl found) (env_outputFile env targetName)
               in benchmarkTargets env rest
                    \<lparr> ls_results = ls_results st @
                        [\<lparr> tr_target = targetName, tr_url = lookupUrl found,
                           tr_playwright = Some playwrightResults, tr_k6 = k6Results \<rparr>],
                      ls_errors = ls_errors st @
                        runK6BenchmarkErrors (env_host env targetName) targetName \<rparr>))"

subsection \<open>The run identifier\<close>

text \<open>
  \<^verbatim>\<open>new Date().toISOString()\<close> for a UTC date and time with a four-digit year:
  \<^verbatim>\<open>YYYY-MM-DDTHH:mm:ss.sssZ\<close>, every field zero-padded.
\<close>

record iso_time =
  year :: nat
  month :: nat
  day :: nat
  hour :: nat
  minute :: nat
  second :: nat
  millis :: nat

definition digit :: "nat \<Rightarrow> char" where
  "digit n = char_of (48 + n)"

definition pad2 :: "nat \<Rightarrow> string" where
  "pad2 n = [digit (n div 10 mod 10), digit (n mod 10)]"

definition pad3 :: "nat \<Rightarrow> string" where
  "pad3 n = [digit (n div 100 mod 10), digit (n div 10 mod 10), digit (n mod 10)]"

definition pad4 :: "nat \<Rightarrow> string" where
  "pad4 n =
     [digit (n div 1000 mod 10), digit (n div 100 mod 10), digit (n div 10 mod 10),
      digit (n mod 10)]"

definition toISOString :: "iso_time \<Rightarrow> string" where
  "toISOString t =
     pad4 (year t) @ ''-'' @ pad2 (month t) @ ''-'' @ pad2 (day t) @ ''T'' @
     pad2 (hour t) @ '':'' @ pad2 (minute t) @ '':'' @ pad2 (second t) @ ''.'' @
     pad3 (millis t) @ ''Z''"

definition valid_iso :: "iso_time \<Rightarrow> bool" where
  "valid_iso t \<longleftrightarrow>
     year t \<le> 9999 \<and> 1 \<le> month t \<and> month t \<le> 12 \<and> 1 \<le> day t \<and> day t \<le> 31 \<and>
     hour t \<le> 23 \<and> minute t \<le> 59 \<and> second t \<le> 59 \<and> millis t \<le> 999"

text \<open>
  \<open>a\<close> lies in an earlier second than \<open>b\<close>: the order of UTC dates and times, which is
  the lexicographic order of their fields down to the second.
\<close>

definition earlierSecond :: "iso_time \<Rightarrow> iso_time \<Rightarrow> bool" where
  "earlierSecond a b \<longleftrightarrow>
     year a < year b \<or> (year a = year b \<and>
      (month a < month b \<or> (month a = month b \<and>
        (day a < day b \<or> (day a = day b \<and>
          (hour a < hour b \<or> (hour a = hour b \<and>
            (minute a < minute b \<or> (minute a = minute b \<and> second a < second b)))))))))"

text \<open>\<^verbatim>\<open>s.replace(/[...]/g, '-')\<close> for a character class.\<close>

definition replaceAll :: "char set \<Rightarrow> char \<Rightarrow> string \<Rightarrow> string" where
  "replaceAll cls r s = map (\<lambda>c. if c \<in> cls then r else c) s"

text \<open>
  Lines 109 and 110.  \<open>None\<close> is the TypeError of calling \<^verbatim>\<open>split\<close> on
  \<^verbatim>\<open>undefined\<close>, when the timestamp has no \<^verbatim>\<open>T\<close>.
\<close>

definition runIdOf :: "string \<Rightarrow> string option" where
  "runIdOf runTimestamp =
     (case splitOn CHR ''T'' (replaceAll {CHR '':'', CHR ''.''} CHR ''-'' runTimestamp) of
        [] \<Rightarrow> None
      | datePart # _ \<Rightarrow>
          (case splitOn CHR ''T'' runTimestamp of
             _ # timePart # _ \<Rightarrow>
               (case splitOn CHR ''.'' timePart of
                  [] \<Rightarrow> None
                | hms # _ \<Rightarrow> Some (datePart @ ''_'' @ replaceAll {CHR '':''} CHR ''-'' hms))
           | _ \<Rightarrow> None))"

subsection \<open>updateRunsIndex\<close>

record index_entry =
  e_runId :: string
  e_timestamp :: instant
  e_targets :: "string list"

text \<open>
  The index file is missing, is not JSON, or holds an array of entries (the index is
  written by this function only, so a file that parses holds such an array).  The result
  is the array written back.  The comparator is the difference of the time values, second
  argument first, so the stable sort is by descending time value.  The function writes
  nothing to the console, and the exception of \<^verbatim>\<open>JSON.parse\<close> on a file that is not JSON
  ends in the empty catch block of lines 180 to 182.
\<close>

definition updateRunsIndex ::
  "index_entry list disk_file \<Rightarrow> string \<Rightarrow> instant \<Rightarrow> run \<Rightarrow> index_entry list" where
  "updateRunsIndex indexFile runId timestamp results =
     (let runsIndex = (case indexFile of
                         Missing \<Rightarrow> []
                       | Unparseable text \<Rightarrow> []
                       | Content parsed \<Rightarrow> parsed);
          pushed = runsIndex @
                   [\<lparr> e_runId = runId, e_timestamp = timestamp,
                      e_targets = map tr_target (run_targets results) \<rparr>];
          sorted_index = sort_key (\<lambda>e. - e_timestamp e) pushed
      in if length sorted_index > 50 then take 50 sorted_index else sorted_index)"

text \<open>
  \<^verbatim>\<open>runAllBenchmarks\<close> from line 114 on, given the run id and the timestamp of lines 108
  to 110.  It resolves to a report of what the run leaves: the record written to
  \<^verbatim>\<open>all-results.json\<close>, the array written to \<^verbatim>\<open>runs-index.json\<close> and the lines written
  with \<^verbatim>\<open>console.error\<close>; or it rejects, which here is the rejection of a browser probe
  in the loop, before the index is touched; writing the files is taken to succeed.
  \<^verbatim>\<open>updateRunsIndex\<close> returns normally for each of the three states of the index
  file.  \<^verbatim>\<open>generateSummary\<close> (lines 202 to 301) comes last: it writes with
  \<^verbatim>\<open>console.log\<close> only and, the tests of a browser result being an array, it does
  not throw.
\<close>

record bench_report =
  rep_results :: run
  rep_index :: "index_entry list"
  rep_errors :: "error_line list"

definition runAllBenchmarks ::
  "bench_env \<Rightarrow> string list \<Rightarrow> index_entry list disk_file \<Rightarrow> string \<Rightarrow> instant \<Rightarrow>
     string + bench_report" where
  "runAllBenchmarks env selectedTargets indexFile runId runTimestamp =
     (case benchmarkTargets env selectedTargets \<lparr> ls_results = [], ls_errors = [] \<rparr> of
        Inl rejection \<Rightarrow> Inl rejection
      | Inr st \<Rightarrow>
          let allResults = \<lparr> run_runId = runId, run_timestamp = runTimestamp,
                              run_targets = ls_results st \<rparr>
          in Inr \<lparr> rep_results = allResults,
                   rep_index = updateRunsIndex indexFile runId runTimestamp allResults,
                   rep_errors = ls_errors st \<rparr>)"

text \<open>
  Lines 304 to 307: the process ends with status 0 when \<^verbatim>\<open>runAllBenchmarks\<close> resolves;
  when it rejects, the line \<^verbatim>\<open>Benchmark failed\<close> is written with the error and the
  process exits with status 1.
\<close>

datatype process_end = Exit0 bench_report | Exit1 string

definition benchmarkProcess ::
  "bench_env \<Rightarrow> string list \<Rightarrow> index_entry list disk_file \<Rightarrow> string \<Rightarrow> instant \<Rightarrow>
     process_end" where
  "benchmarkProcess env selectedTargets indexFile runId runTimestamp =
     (case runAllBenchmarks env selectedTargets indexFile runId runTimestamp of
        Inl rejection \<Rightarrow> Exit1 rejection
      | Inr report \<Rightarrow> Exit0 report)"

subsection \<open>generateSummary: the k6 part\<close>

text \<open>
  Lines 263 to 284, the lines pushed on \<^verbatim>\<open>summaryLines\<close> for the load result of one
  target.  \<open>K6Completed\<close> is the row \<^verbatim>\<open>| Status | (check mark) Completed |\<close>,
  \<open>K6StatusError e\<close> the line \<^verbatim>\<open>**k6 Status:** e\<close> and \<open>K6Skipped\<close> the line
  \<^verbatim>\<open>**k6 Status:** Skipped (not installed)\<close>.
\<close>

datatype sline =
    SBlank
  | K6LoadTests
  | K6MetricValueHeader
  | K6MetricValueRule
  | K6Completed
  | K6ResultsFile "string option"
  | K6StatusError string
  | K6Skipped

definition generateSummary_k6 :: "load_result option \<Rightarrow> sline list" where
  "generateSummary_k6 k6 =
     (case k6 of
        Some r \<Rightarrow>
          if \<not> truthy (k6_error r) then
            [K6LoadTests, SBlank, K6MetricValueHeader, K6MetricValueRule, K6Completed,
             K6ResultsFile (k6_metricsFile r), SBlank]
          else (case k6_error r of
                  Some e \<Rightarrow> [K6StatusError e, SBlank]
                | None \<Rightarrow> [])
      | None \<Rightarrow> [K6Skipped, SBlank])"

section \<open>Example data\<close>

text \<open>
  Four runs of 2026-01-18, at 10:00:00, 10:05:00, 10:10:00 and 10:15:00 UTC.  Run A has the
  targets kylix and pyxis and no k6 on the host; run B has kylix only, without network
  timing, and a k6 run that failed; run C has kylix only and a k6 run that succeeded; run D
  was made with a configuration that has, beside kylix, a target whose key is
  \<^verbatim>\<open>constructor\<close>.
\<close>

definition pageLoadTest :: "num \<Rightarrow> probe_test" where
  "pageLoadTest d =
     \<lparr> t_name = ''page_load'', t_success = True, t_duration = Some d,
       t_domContentLoaded = None, t_domInteractive = None, t_loadComplete = None,
       t_ttfb = None, t_dns = None, t_tcp = None, t_download = None \<rparr>"

definition domTest :: "num \<Rightarrow> num \<Rightarrow> num \<Rightarrow> probe_test" where
  "domTest dcl di lc =
     \<lparr> t_name = ''dom_metrics'', t_success = True, t_duration = None,
       t_domContentLoaded = Some dcl, t_domInteractive = Some di, t_loadComplete = Some lc,
       t_ttfb = None, t_dns = None, t_tcp = None, t_download = None \<rparr>"

definition networkTest :: "num \<Rightarrow> num \<Rightarrow> num \<Rightarrow> num \<Rightarrow> probe_test" where
  "networkTest tf dn tc dl =
     \<lparr> t_name = ''network_timing'', t_success = True, t_duration = None,
       t_domContentLoaded = None, t_domInteractive = None, t_loadComplete = None,
       t_ttfb = Some tf, t_dns = Some dn, t_tcp = Some tc, t_download = Some dl \<rparr>"

definition idA :: string where "idA = ''2026-01-18_10-00-00''"
definition idB :: string where "idB = ''2026-01-18_10-05-00''"
definition idC :: string where "idC = ''2026-01-18_10-10-00''"
definition idD :: string where "idD = ''2026-01-18_10-15-00''"

definition k6Failed :: load_result where
  "k6Failed =
     \<lparr> k6_target = ''kylix'', k6_url = Some ''http://kylix.local'',
       k6_error = Some ''Command failed: k6 run'', k6_metricsFile = None,
       k6_totalRequests = None \<rparr>"

definition k6Succeeded :: load_result where
  "k6Succeeded =
     \<lparr> k6_target = ''kylix'', k6_url = Some ''http://kylix.local'', k6_error = None,
       k6_metricsFile = Some ''results/runs/2026-01-18_10-10-00/kylix-k6-results.json'',
       k6_totalRequests = Some 1200 \<rparr>"

definition runA :: run where
  "runA =
     \<lparr> run_runId = idA, run_timestamp = 1768730400000,
       run_targets =
         [\<lparr> tr_target = ''kylix'', tr_url = Some ''http://kylix.local'',
            tr_playwright =
              Some \<lparr> pw_error = None,
                     pw_tests = [pageLoadTest 245, domTest 180 150 210,
                                 networkTest 45 2 5 12] \<rparr>,
            tr_k6 = None \<rparr>,
          \<lparr> tr_target = ''pyxis'', tr_url = Some ''http://pyxis.local'',
            tr_playwright = Some \<lparr> pw_error = None, pw_tests = [pageLoadTest 312] \<rparr>,
            tr_k6 = None \<rparr>] \<rparr>"

definition runB :: run where
  "runB =
     \<lparr> run_runId = idB, run_timestamp = 1768730700000,
       run_targets =
         [\<lparr> tr_target = ''kylix'', tr_url = Some ''http://kylix.local'',
            tr_playwright =
              Some \<lparr> pw_error = None, pw_tests = [pageLoadTest 198, domTest 180 140 200] \<rparr>,
            tr_k6 = Some k6Failed \<rparr>] \<rparr>"

definition runC :: run where
  "runC =
     \<lparr> run_runId = idC, run_timestamp = 1768731000000,
       run_targets =
         [\<lparr> tr_target = ''kylix'', tr_url = Some ''http://kylix.local'',
            tr_playwright =
              Some \<lparr> pw_error = None, pw_tests = [pageLoadTest 220, domTest 175 150 205] \<rparr>,
            tr_k6 = Some k6Succeeded \<rparr>] \<rparr>"

definition runD :: run where
  "runD =
     \<lparr> run_runId = idD, run_timestamp = 1768731300000,
       run_targets =
         [\<lparr> tr_target = ''kylix'', tr_url = Some ''http://kylix.local'',
            tr_playwright =
              Some \<lparr> pw_error = None, pw_tests = [pageLoadTest 230, domTest 178 149 204] \<rparr>,
            tr_k6 = None \<rparr>,
          \<lparr> tr_target = ''constructor'', tr_url = Some ''http://constructor.local'',
            tr_playwright = Some \<lparr> pw_error = None, pw_tests = [pageLoadTest 301] \<rparr>,
            tr_k6 = None \<rparr>] \<rparr>"

definition exampleRunsDir :: "string \<Rightarrow> run disk_file" where
  "exampleRunsDir runId =
     (if runId = idA then Content runA
      else if runId = idB then Content runB
      else if runId = idC then Content runC
      else if runId = idD then Content runD
      else Missing)"

text \<open>The elements that the loading loop of compareRuns pushes for the four runs.\<close>

definition loadedA :: loaded_run where
  "loadedA = \<lparr> l_runId = idA, l_timestamp = run_timestamp runA, l_metrics = extractMetrics runA \<rparr>"

definition loadedB :: loaded_run where
  "loadedB = \<lparr> l_runId = idB, l_timestamp = run_timestamp runB, l_metrics = extractMetrics runB \<rparr>"

definition loadedC :: loaded_run where
  "loadedC = \<lparr> l_runId = idC, l_timestamp = run_timestamp runC, l_metrics = extractMetrics runC \<rparr>"

definition loadedD :: loaded_run where
  "loadedD = \<lparr> l_runId = idD, l_timestamp = run_timestamp runD, l_metrics = extractMetrics runD \<rparr>"

text \<open>
  An index of fifty entries, one a millisecond from time 0 to time 49, oldest first as a
  hand-edited file may have them, and the entry of a new run at time 100.
\<close>

definition exampleIndex :: "index_entry list" where
  "exampleIndex =
     map (\<lambda>i. \<lparr> e_runId = ''old'', e_timestamp = int i, e_targets = [''kylix''] \<rparr>) [0..<50]"

text \<open>
  Two lines of a k6 output file, and \<^verbatim>\<open>JSON.parse\<close> on the lines of the examples: it
  gives the objects of these two lines and rejects the other line the examples use,
  \<^verbatim>\<open>not json\<close>.
\<close>

definition pointLine :: jstring where
  \<open>pointLine = js ''{"type":"Point","metric":"http_reqs"}''\<close>

definition metricLine :: jstring where
  \<open>metricLine = js ''{"type":"Metric","metric":"http_reqs"}''\<close>

definition exampleParse :: "jstring \<Rightarrow> json option" where
  "exampleParse line =
     (if line = pointLine then
        Some (JObj [(js ''type'', JStr (js ''Point'')), (js ''metric'', JStr (js ''http_reqs''))])
      else if line = metricLine then
        Some (JObj [(js ''type'', JStr (js ''Metric'')), (js ''metric'', JStr (js ''http_reqs''))])
      else None)"

text \<open>
  A host where k6 ran and wrote four lines, the third of them malformed, and the same
  output without the malformed line.
\<close>

definition exampleOutput :: jstring where
  "exampleOutput = metricLine @ [10] @ pointLine @ [10] @ js ''not json'' @ [10] @ pointLine @ [10]"

definition exampleHost :: k6_host where
  "exampleHost = \<lparr> h_version = Returned, h_run = Returned, h_output = Text exampleOutput \<rparr>"

text \<open>
  A host where the k6 binary is there and the command \<^verbatim>\<open>k6 version\<close> fails.
\<close>

definition brokenK6Host :: k6_host where
  "brokenK6Host =
     \<lparr> h_version = Threw ''Command failed: k6 version'', h_run = Returned, h_output = Absent \<rparr>"

text \<open>
  A configuration with the targets kylix and pyxis.  When kylix is probed k6 is not
  installed; when pyxis is probed k6 is there and the load run fails.
\<close>

definition exampleEnv :: bench_env where
  "exampleEnv =
     \<lparr> env_targets =
         (\<lambda>name. if name = ''kylix'' then
                    Some \<lparr> cfg_name = ''kylix'', cfg_url = ''http://kylix.local'' \<rparr>
                  else if name = ''pyxis'' then
                    Some \<lparr> cfg_name = ''pyxis'', cfg_url = ''http://pyxis.local'' \<rparr>
                  else None),
       env_playwright =
         (\<lambda>name url. Inr \<lparr> pw_error = None, pw_tests = [pageLoadTest 245] \<rparr>),
       env_JSON_parse = exampleParse,
       env_host =
         (\<lambda>name. if name = ''kylix'' then
                    \<lparr> h_version = NotFound ''Command failed: k6 version'', h_run = Returned,
                      h_output = Absent \<rparr>
                  else
                    \<lparr> h_version = Returned, h_run = Threw ''Command failed: k6 run'',
                      h_output = Absent \<rparr>),
       env_outputFile = (\<lambda>name. ''results/runs/2026-01-18_10-00-00/'' @ name @ ''-k6-results.json'') \<rparr>"

text \<open>The instants at which runs A and B were started.\<close>

definition startA :: iso_time where
  "startA = \<lparr> year = 2026, month = 1, day = 18, hour = 10, minute = 0, second = 0,
              millis = 412 \<rparr>"

definition startB :: iso_time where
  "startB = \<lparr> year = 2026, month = 1, day = 18, hour = 10, minute = 5, second = 0,
              millis = 87 \<rparr>"

text \<open>
  The same configuration on a host without k6; and an index file cut off in the middle of
  its second entry.
\<close>

definition noK6Env :: bench_env where
  "noK6Env =
     exampleEnv\<lparr>env_host :=
       (\<lambda>name. \<lparr> h_version = NotFound ''Command failed: k6 version'', h_run = Returned,
                  h_output = Absent \<rparr>)\<rparr>"

definition truncatedIndex :: jstring where
  \<open>truncatedIndex = js ''[{"runId":"2026-01-18_10-00-00","timestamp":"2026-01-18T10:00:00.000Z","targets":["kylix"]},{"runId":"2026''\<close>

section \<open>Properties of compare-runs.js\<close>

lemmas example_defs = idA_def idB_def idC_def idD_def runA_def runB_def runC_def runD_def
  exampleRunsDir_def pageLoadTest_def domTest_def networkTest_def k6Failed_def k6Succeeded_def
  loadedA_def loadedB_def loadedC_def loadedD_def

lemmas compare_defs = compareRuns_def loadAndSort_def comparisonLines_def loadRun_def
  extractMetrics_def setProperty_def getProperty_def truthyValue_def metricsOf_def
  objectPrototypeNames_def extractTarget_def
  extractPlaywright_def extractTest_def k6HasResults_def truthy_def sortRuns_def
  allTargets_def setAdd_def targetSection_def urlLines_def playwrightTable_def k6Table_def
  hasTarget_def metricRow_def display_def
  playwrightMetrics_def

subsection \<open>Markers of a metric row\<close>

lemma fold_min_Min: "fold min vs (v::rat) = Min (set (v # vs))"
  by (rule Min.set_eq_fold [symmetric])

lemma fold_max_Max: "fold max vs (v::rat) = Max (set (v # vs))"
  by (rule Max.set_eq_fold [symmetric])

lemma metricCells_eq:
  "vs \<noteq> [] \<Longrightarrow> metricCells n vs = map (display n (Min (set vs)) (Max (set vs))) vs"
proof (cases vs)
  case Nil
  assume "vs \<noteq> []"
  with Nil show ?thesis by simp
next
  case (Cons a list)
  show ?thesis
    unfolding Cons metricCells.simps fold_min_Min fold_max_Max Let_def ..
qed

lemma length_metricCells: "length (metricCells n vs) = length vs"
  by (cases vs) (simp_all add: Let_def)

lemma nth_Min_Max:
  assumes "i < length (vs::rat list)" "Min (set vs) = Max (set vs)"
  shows "vs ! i = Min (set vs)"
proof -
  have "vs ! i \<in> set vs" using assms(1) by simp
  then have "Min (set vs) \<le> vs ! i" "vs ! i \<le> Max (set vs)" by simp_all
  with assms(2) show ?thesis by simp
qed

lemma metricCells_nth:
  assumes "2 \<le> length vs" and "i < length vs"
  shows "(Min (set vs) < Max (set vs) \<longrightarrow>
           (metricCells (length vs) vs ! i = Best (vs ! i) \<longleftrightarrow> vs ! i = Min (set vs)) \<and>
           (metricCells (length vs) vs ! i = Worst (vs ! i) \<longleftrightarrow> vs ! i = Max (set vs)) \<and>
           (metricCells (length vs) vs ! i = Plain (vs ! i) \<longleftrightarrow>
              vs ! i \<noteq> Min (set vs) \<and> vs ! i \<noteq> Max (set vs))) \<and>
         (Min (set vs) = Max (set vs) \<longrightarrow> metricCells (length vs) vs ! i = Best (vs ! i))"
proof -
  from assms have ne: "vs \<noteq> []" by auto
  from assms have n: "length vs > 1" by simp
  show ?thesis
    using assms(2) n nth_Min_Max [OF assms(2)] by (auto simp: metricCells_eq [OF ne] display_def)
qed

subsection \<open>The section of one target\<close>

lemma those_eq_Some: "those xs = Some ys \<longleftrightarrow> xs = map Some ys"
proof (induction xs arbitrary: ys)
  case Nil
  show ?case by auto
next
  case (Cons x xs)
  show ?case
    by (cases x; cases ys) (auto simp: Cons.IH)
qed

lemma own_lookup:
  assumes "t \<in> runKeys run"
  shows "getProperty (l_metrics run) t = Metrics (the (map_of (mo_own (l_metrics run)) t))"
proof -
  from assms have "map_of (mo_own (l_metrics run)) t \<noteq> None"
    by (simp add: runKeys_def map_of_eq_None_iff)
  then show ?thesis by (auto simp: getProperty_def)
qed

lemma own_hasTarget: "\<forall>run \<in> set runs. t \<in> runKeys run \<Longrightarrow> hasTarget runs t"
  by (simp add: hasTarget_def list_all_iff own_lookup truthyValue_def)

lemma own_tms:
  "\<forall>run \<in> set runs. t \<in> runKeys run \<Longrightarrow>
   those (map (\<lambda>run. metricsOf (getProperty (l_metrics run) t)) runs) =
   Some (map (\<lambda>run. the (map_of (mo_own (l_metrics run)) t)) runs)"
  by (induction runs) (simp_all add: own_lookup metricsOf_def)

lemma own_Some:
  "t \<in> runKeys run \<Longrightarrow> \<exists>tm. map_of (mo_own (l_metrics run)) t = Some tm"
  by (cases "map_of (mo_own (l_metrics run)) t") (simp_all add: runKeys_def map_of_eq_None_iff)

lemma own_values:
  assumes "\<forall>run \<in> set runs. t \<in> runKeys run"
  shows "map (\<lambda>tm. tm_playwright tm m)
           (map (\<lambda>run. the (map_of (mo_own (l_metrics run)) t)) runs) =
         map (\<lambda>run. metricValue run t m) runs"
proof -
  have "tm_playwright (the (map_of (mo_own (l_metrics run)) t)) m = metricValue run t m"
    if "run \<in> set runs" for run
    using own_Some [of t run] that assms by (auto simp: metricValue_def)
  then show ?thesis by simp
qed

lemma own_status:
  assumes "\<forall>run \<in> set runs. t \<in> runKeys run"
  shows "map tm_hasResults (map (\<lambda>run. the (map_of (mo_own (l_metrics run)) t)) runs) =
         map (\<lambda>run. k6Available run t) runs"
proof -
  have "tm_hasResults (the (map_of (mo_own (l_metrics run)) t)) = k6Available run t"
    if "run \<in> set runs" for run
    using own_Some [of t run] that assms by (auto simp: k6Available_def)
  then show ?thesis by simp
qed

lemma section_missing:
  "\<not> hasTarget runs t \<Longrightarrow>
   targetSection runs t = Inr [TargetHeading t, Blank, NotAllRunsNote, Blank]"
  by (simp add: targetSection_def)

lemma section_present:
  assumes "\<forall>run \<in> set runs. t \<in> runKeys run"
  shows "targetSection runs t =
           Inr ([TargetHeading t, Blank] @
                urlLines (map (\<lambda>run. the (map_of (mo_own (l_metrics run)) t)) runs) @
                playwrightTable runs (map (\<lambda>run. the (map_of (mo_own (l_metrics run)) t)) runs) @
                k6Table runs (map (\<lambda>run. the (map_of (mo_own (l_metrics run)) t)) runs))"
  using own_hasTarget [OF assms] by (simp add: targetSection_def own_tms [OF assms])

lemma metricRow_mem:
  "MetricRow m cells \<in> set (metricRow n tms m') \<longleftrightarrow>
     m = m' \<and> (\<exists>vs. map (\<lambda>tm. tm_playwright tm m') tms = map Some vs \<and> cells = metricCells n vs)"
proof (cases "those (map (\<lambda>tm. tm_playwright tm m') tms)")
  case None
  then have "\<And>vs. map (\<lambda>tm. tm_playwright tm m') tms \<noteq> map Some vs"
    by (metis option.distinct(1) those_eq_Some)
  with None show ?thesis by (simp add: metricRow_def)
next
  case (Some vs)
  then have "map (\<lambda>tm. tm_playwright tm m') tms = map Some vs"
    by (simp add: those_eq_Some)
  then have "\<And>ws. map (\<lambda>tm. tm_playwright tm m') tms = map Some ws \<longleftrightarrow> ws = vs"
    by (auto simp only: inj_map_eq_map [OF inj_Some])
  with Some show ?thesis by (auto simp: metricRow_def)
qed

lemma metricRow_other: "K6Row ts b \<notin> set (metricRow n tms m)"
  by (simp add: metricRow_def split: option.splits)

lemma urlLines_other:
  "MetricRow m cells \<notin> set (urlLines tms)" "K6Row ts b \<notin> set (urlLines tms)"
  by (simp_all add: urlLines_def split: list.split)

lemma k6Table_other: "MetricRow m cells \<notin> set (k6Table runs tms)"
  by (auto simp: k6Table_def Let_def)

lemma playwrightTable_other: "K6Row ts b \<notin> set (playwrightTable runs tms)"
  by (auto simp: playwrightTable_def Let_def metricRow_other)

lemma playwrightTable_rows:
  "MetricRow m cells \<in> set (playwrightTable runs tms) \<longleftrightarrow>
     m \<in> set playwrightMetrics \<and> list_ex (\<lambda>tm. tm_playwright tm m \<noteq> None) tms \<and>
     (\<exists>vs. map (\<lambda>tm. tm_playwright tm m) tms = map Some vs \<and>
           cells = metricCells (length runs) vs)"
proof -
  let ?av = "filter (\<lambda>m. list_ex (\<lambda>tm. tm_playwright tm m \<noteq> None) tms) playwrightMetrics"
  have "MetricRow m cells \<in> set (playwrightTable runs tms) \<longleftrightarrow>
          (\<exists>m' \<in> set ?av. MetricRow m cells \<in> set (metricRow (length runs) tms m'))"
  proof (cases "?av = []")
    case True
    then show ?thesis by (simp add: playwrightTable_def Let_def del: filter_False)
  next
    case False
    then show ?thesis by (simp add: playwrightTable_def Let_def)
  qed
  also have "\<dots> \<longleftrightarrow> m \<in> set ?av \<and>
      (\<exists>vs. map (\<lambda>tm. tm_playwright tm m) tms = map Some vs \<and>
            cells = metricCells (length runs) vs)"
    unfolding metricRow_mem by blast
  finally show ?thesis by simp
qed

lemma k6Row_mem:
  "K6Row ts b \<in> (\<lambda>(run, s). K6Row (l_timestamp run) s) ` set zs \<longleftrightarrow>
     (\<exists>p \<in> set zs. ts = l_timestamp (fst p) \<and> b = snd p)"
  by (induction zs) auto

lemma k6Table_rows:
  assumes "length tms = length runs"
  shows "K6Row ts b \<in> set (k6Table runs tms) \<longleftrightarrow>
           list_ex tm_hasResults tms \<and>
           (\<exists>i < length runs. ts = l_timestamp (runs ! i) \<and> b = tm_hasResults (tms ! i))"
proof -
  have "(\<exists>p \<in> set (zip runs (map tm_hasResults tms)). ts = l_timestamp (fst p) \<and> b = snd p) \<longleftrightarrow>
        (\<exists>i < length runs. ts = l_timestamp (runs ! i) \<and> b = tm_hasResults (tms ! i))"
  proof
    assume "\<exists>p \<in> set (zip runs (map tm_hasResults tms)). ts = l_timestamp (fst p) \<and> b = snd p"
    then obtain p where p: "p \<in> set (zip runs (map tm_hasResults tms))"
      and eq: "ts = l_timestamp (fst p)" "b = snd p" by blast
    from p obtain i where "runs ! i = fst p" "map tm_hasResults tms ! i = snd p"
      "i < length runs" "i < length (map tm_hasResults tms)"
      unfolding in_set_zip by blast
    with eq show "\<exists>i < length runs. ts = l_timestamp (runs ! i) \<and> b = tm_hasResults (tms ! i)"
      by auto
  next
    assume "\<exists>i < length runs. ts = l_timestamp (runs ! i) \<and> b = tm_hasResults (tms ! i)"
    then obtain i where i: "i < length runs"
      and eq: "ts = l_timestamp (runs ! i)" "b = tm_hasResults (tms ! i)" by blast
    from i assms have "(runs ! i, tm_hasResults (tms ! i)) \<in> set (zip runs (map tm_hasResults tms))"
      unfolding in_set_zip by (intro exI [of _ i]) simp
    with eq show "\<exists>p \<in> set (zip runs (map tm_hasResults tms)). ts = l_timestamp (fst p) \<and> b = snd p"
      by force
  qed
  moreover have "list_ex (\<lambda>s. s) (map tm_hasResults tms) \<longleftrightarrow> list_ex tm_hasResults tms"
    by (simp add: list_ex_iff)
  ultimately show ?thesis
    by (simp add: k6Table_def Let_def k6Row_mem)
qed

lemma section_rows:
  assumes "\<forall>run \<in> set runs. t \<in> runKeys run" and "targetSection runs t = Inr lines"
  shows "MetricRow m cells \<in> set lines \<longleftrightarrow>
           runs \<noteq> [] \<and> m \<in> set playwrightMetrics \<and>
           (\<exists>vs. map (\<lambda>run. metricValue run t m) runs = map Some vs \<and>
                 cells = metricCells (length runs) vs)"
proof -
  let ?tms = "map (\<lambda>run. the (map_of (mo_own (l_metrics run)) t)) runs"
  note own = assms(1)
  from assms(2) have lines: "lines = [TargetHeading t, Blank] @ urlLines ?tms @
      playwrightTable runs ?tms @ k6Table runs ?tms"
    by (simp add: section_present [OF own])
  have "MetricRow m cells \<in> set lines \<longleftrightarrow>
          MetricRow m cells \<in> set (playwrightTable runs ?tms)"
    by (simp add: lines urlLines_other k6Table_other)
  also have "\<dots> \<longleftrightarrow> m \<in> set playwrightMetrics \<and>
      list_ex (\<lambda>tm. tm_playwright tm m \<noteq> None) ?tms \<and>
      (\<exists>vs. map (\<lambda>run. metricValue run t m) runs = map Some vs \<and>
                 cells = metricCells (length runs) vs)"
    unfolding playwrightTable_rows own_values [OF own] ..
  also have "\<dots> \<longleftrightarrow> runs \<noteq> [] \<and> m \<in> set playwrightMetrics \<and>
           (\<exists>vs. map (\<lambda>run. metricValue run t m) runs = map Some vs \<and>
                 cells = metricCells (length runs) vs)"
  proof -
    have "list_ex (\<lambda>tm. tm_playwright tm m \<noteq> None) ?tms \<longleftrightarrow> runs \<noteq> []"
      if eq: "map (\<lambda>run. metricValue run t m) runs = map Some vs" for vs
    proof -
      have "tm_playwright x m \<noteq> None" if "x \<in> set ?tms" for x
      proof -
        from that have "tm_playwright x m \<in> set (map (\<lambda>tm. tm_playwright tm m) ?tms)"
          by (simp only: set_map) (rule imageI)
        also have "map (\<lambda>tm. tm_playwright tm m) ?tms = map Some vs"
          by (simp only: own_values [OF own] eq)
        finally show ?thesis by auto
      qed
      then show ?thesis
        by (cases runs) (auto simp: list_ex_iff)
    qed
    then show ?thesis by blast
  qed
  finally show ?thesis .
qed

lemma section_k6_rows:
  assumes "\<forall>run \<in> set runs. t \<in> runKeys run" and "targetSection runs t = Inr lines"
  shows "K6Row ts b \<in> set lines \<longleftrightarrow>
           (\<exists>run \<in> set runs. k6Available run t) \<and>
           (\<exists>run \<in> set runs. ts = l_timestamp run \<and> b = k6Available run t)"
proof -
  let ?tms = "map (\<lambda>run. the (map_of (mo_own (l_metrics run)) t)) runs"
  note own = assms(1)
  from assms(2) have lines: "lines = [TargetHeading t, Blank] @ urlLines ?tms @
      playwrightTable runs ?tms @ k6Table runs ?tms"
    by (simp add: section_present [OF own])
  have st: "map tm_hasResults ?tms = map (\<lambda>run. k6Available run t) runs"
    by (rule own_status [OF own])
  have nth: "tm_hasResults (?tms ! i) = k6Available (runs ! i) t" if "i < length runs" for i
    using that arg_cong [OF st, of "\<lambda>xs. xs ! i"] by simp
  have ex: "list_ex tm_hasResults ?tms \<longleftrightarrow> (\<exists>run \<in> set runs. k6Available run t)"
    using arg_cong [OF st, of "list_ex (\<lambda>s. s)"] by (simp add: list_ex_iff)
  have "K6Row ts b \<in> set lines \<longleftrightarrow> K6Row ts b \<in> set (k6Table runs ?tms)"
    by (simp add: lines urlLines_other playwrightTable_other)
  also have "\<dots> \<longleftrightarrow> list_ex tm_hasResults ?tms \<and>
      (\<exists>i < length runs. ts = l_timestamp (runs ! i) \<and> b = tm_hasResults (?tms ! i))"
    by (rule k6Table_rows) simp
  also have "\<dots> \<longleftrightarrow> (\<exists>run \<in> set runs. k6Available run t) \<and>
           (\<exists>i < length runs. ts = l_timestamp (runs ! i) \<and> b = k6Available (runs ! i) t)"
    unfolding ex using nth by blast
  also have "(\<exists>i < length runs. ts = l_timestamp (runs ! i) \<and> b = k6Available (runs ! i) t) \<longleftrightarrow>
      (\<exists>run \<in> set runs. ts = l_timestamp run \<and> b = k6Available run t)"
    by (metis in_set_conv_nth)
  finally show ?thesis .
qed

subsection \<open>The targets of a comparison\<close>

lemma set_foldl_setAdd: "set (foldl setAdd s ks) = set s \<union> set ks"
  by (induction ks arbitrary: s) (auto simp: setAdd_def)

lemma distinct_foldl_setAdd: "distinct s \<Longrightarrow> distinct (foldl setAdd s ks)"
  by (induction ks arbitrary: s) (auto simp: setAdd_def)

lemma set_allTargets_aux:
  "set (foldl (\<lambda>s run. foldl setAdd s (map fst (mo_own (l_metrics run)))) s0 runs) =
   set s0 \<union> (\<Union>run \<in> set runs. runKeys run)"
  by (induction runs arbitrary: s0) (auto simp: set_foldl_setAdd runKeys_def)

lemma distinct_allTargets_aux:
  "distinct s0 \<Longrightarrow> distinct (foldl (\<lambda>s run. foldl setAdd s (map fst (mo_own (l_metrics run)))) s0 runs)"
  by (induction runs arbitrary: s0) (auto simp: distinct_foldl_setAdd)

lemma set_allTargets: "set (allTargets runs) = (\<Union>run \<in> set runs. runKeys run)"
  by (simp add: allTargets_def set_allTargets_aux)

lemma distinct_allTargets: "distinct (allTargets runs)"
  by (simp add: allTargets_def distinct_allTargets_aux)


lemma count_list_distinct: "distinct xs \<Longrightarrow> x \<in> set xs \<Longrightarrow> count_list xs x = 1"
  by (induction xs) auto

subsection \<open>Loading and sorting\<close>












text \<open>
  Claim C1, as stated, fails on the code: in the comparison of runs A and B the metric
  \<open>domContentLoaded\<close> is 180 in both runs, so the minimum equals the maximum, and both
  cells carry the fastest marker.
\<close>

theorem tie_marked_best:
  "compareRuns exampleRunsDir [idA, idB] =
     Inr [Title, Blank, ComparedRuns [idA, idB], Blank,
          TargetHeading ''kylix'', Blank, UrlLine ''http://kylix.local'', Blank,
          PlaywrightHeading, Blank,
          TableHeader [1768730400000, 1768730700000], TableRule 3,
          MetricRow pageLoad [Worst 245, Best 198],
          MetricRow domContentLoaded [Best 180, Best 180],
          MetricRow domInteractive [Worst 150, Best 140], Blank,
          TargetHeading ''pyxis'', Blank, NotAllRunsNote, Blank]"
  by (simp add: example_defs compare_defs)

text \<open>
  Claim C1, amended.  In a comparison (two or more runs), for a target that all runs have
  and a metric row that is included: when the minimum is less than the maximum, exactly the
  runs attaining the minimum are marked fastest, exactly the runs attaining the maximum are
  marked slowest, and the other runs are unmarked; when the minimum equals the maximum,
  every run is marked fastest and none slowest.
\<close>

theorem metric_row_markers:
  assumes "\<forall>run \<in> set runs. t \<in> runKeys run" and "2 \<le> length runs"
    and "targetSection runs t = Inr lines"
    and "MetricRow m cells \<in> set lines" and "i < length runs"
  shows "\<exists>vs. map (\<lambda>run. metricValue run t m) runs = map Some vs \<and>
           length cells = length runs \<and>
           (Min (set vs) < Max (set vs) \<longrightarrow>
              (cells ! i = Best (vs ! i) \<longleftrightarrow> vs ! i = Min (set vs)) \<and>
              (cells ! i = Worst (vs ! i) \<longleftrightarrow> vs ! i = Max (set vs)) \<and>
              (cells ! i = Plain (vs ! i) \<longleftrightarrow>
                 vs ! i \<noteq> Min (set vs) \<and> vs ! i \<noteq> Max (set vs))) \<and>
           (Min (set vs) = Max (set vs) \<longrightarrow> cells ! i = Best (vs ! i))"
proof -
  from assms(4) obtain vs
    where vs: "map (\<lambda>run. metricValue run t m) runs = map Some vs"
      and cells: "cells = metricCells (length runs) vs"
    unfolding section_rows [OF assms(1,3)] by blast
  from vs have len: "length vs = length runs" by (metis length_map)
  from assms(2,5) len have "2 \<le> length vs" "i < length vs" by simp_all
  from metricCells_nth [OF this] vs cells len show ?thesis
    by (auto simp: length_metricCells)
qed

text \<open>Claim C1, amended, on the page-load row of runs A and B.\<close>

theorem metric_row_markers_witness:
  "''kylix'' \<in> runKeys loadedA \<and> ''kylix'' \<in> runKeys loadedB \<and>
   2 \<le> length [loadedA, loadedB] \<and>
   targetSection [loadedA, loadedB] ''kylix'' =
     Inr [TargetHeading ''kylix'', Blank, UrlLine ''http://kylix.local'', Blank,
          PlaywrightHeading, Blank,
          TableHeader [1768730400000, 1768730700000], TableRule 3,
          MetricRow pageLoad [Worst 245, Best 198],
          MetricRow domContentLoaded [Best 180, Best 180],
          MetricRow domInteractive [Worst 150, Best 140], Blank] \<and>
   (1::nat) < length [loadedA, loadedB] \<and>
   map (\<lambda>run. metricValue run ''kylix'' pageLoad) [loadedA, loadedB] = map Some [245, 198] \<and>
   Min (set [245, 198 :: rat]) < Max (set [245, 198]) \<and>
   [Worst 245, Best (198 :: rat)] ! 1 = Best ([245, 198] ! 1) \<and>
   [245, 198 :: rat] ! 1 = Min (set [245, 198])"
proof -
  let ?runs = "[loadedA, loadedB]"
  let ?lines = "[TargetHeading ''kylix'', Blank, UrlLine ''http://kylix.local'', Blank,
          PlaywrightHeading, Blank,
          TableHeader [1768730400000, 1768730700000], TableRule 3,
          MetricRow pageLoad [Worst 245, Best 198],
          MetricRow domContentLoaded [Best 180, Best 180],
          MetricRow domInteractive [Worst 150, Best 140], Blank]"
  have h1: "\<forall>run \<in> set ?runs. ''kylix'' \<in> runKeys run"
    by (simp add: example_defs runKeys_def extractMetrics_def setProperty_def)
  have h2: "2 \<le> length ?runs" by simp
  have h3: "targetSection ?runs ''kylix'' = Inr ?lines"
    by (simp add: example_defs compare_defs)
  have h4: "MetricRow pageLoad [Worst 245, Best 198] \<in> set ?lines" by simp
  have h5: "(1::nat) < length ?runs" by simp
  have v: "map (\<lambda>run. metricValue run ''kylix'' pageLoad) ?runs = map Some [245, 198]"
    by (simp add: example_defs metricValue_def compare_defs)
  from metric_row_markers [OF h1 h2 h3 h4 h5] obtain vs
    where vs: "map (\<lambda>run. metricValue run ''kylix'' pageLoad) ?runs = map Some vs"
      and mk: "Min (set vs) < Max (set vs) \<longrightarrow>
                 ([Worst 245, Best 198] ! 1 = Best (vs ! 1) \<longleftrightarrow> vs ! 1 = Min (set vs))"
    by blast
  from vs v have "map Some vs = map Some [245, 198 :: rat]" by (simp only:)
  then have "vs = [245, 198]" by (simp only: inj_map_eq_map [OF inj_Some])
  with mk h1 h2 h3 h5 v show ?thesis by simp
qed



subsection \<open>Targets that some runs lack\<close>

text \<open>
  A key that one of the compared runs has as a target, and that another run neither has as
  a target nor finds on the prototype chain of its \<^verbatim>\<open>metrics\<close> object, gets one section:
  the heading and the note that not all runs include the target, without any row.
\<close>

lemma absent_key_note:
  assumes "run \<in> set runs" and "t \<in> runKeys run"
    and "run' \<in> set runs" and "getProperty (l_metrics run') t = Undefined"
  shows "count_list (allTargets runs) t = 1 \<and>
         targetSection runs t = Inr [TargetHeading t, Blank, NotAllRunsNote, Blank]"
proof -
  from assms(1,2) have "t \<in> set (allTargets runs)" by (auto simp: set_allTargets)
  then have "count_list (allTargets runs) t = 1"
    by (rule count_list_distinct [OF distinct_allTargets])
  moreover have "\<not> hasTarget runs t"
  proof -
    from assms(4) have "\<not> truthyValue (getProperty (l_metrics run') t)"
      by (simp add: truthyValue_def)
    with assms(3) show ?thesis unfolding hasTarget_def list_all_iff by blast
  qed
  then have "targetSection runs t = Inr [TargetHeading t, Blank, NotAllRunsNote, Blank]"
    by (rule section_missing)
  ultimately show ?thesis by simp
qed

lemma ordinary_key_absent:
  assumes "t \<notin> runKeys run" and "mo_proto (l_metrics run) = None"
    and "t \<notin> set (''__proto__'' # objectPrototypeNames)"
  shows "getProperty (l_metrics run) t = Undefined"
proof -
  from assms(1) have "map_of (mo_own (l_metrics run)) t = None"
    by (simp add: runKeys_def map_of_eq_None_iff)
  with assms(2,3) show ?thesis by (simp add: getProperty_def)
qed

text \<open>
  Claim C9 fails on the code for a key that names a member of \<^verbatim>\<open>Object.prototype\<close>.
  Run D has the target \<^verbatim>\<open>constructor\<close> and run B does not.  In their comparison the
  key is one of the targets, once; the test of line 103 finds the inherited
  \<^verbatim>\<open>constructor\<close> in the \<^verbatim>\<open>metrics\<close> object of run B and passes, so no note is
  written; and line 118 then throws a TypeError, so the comparison ends without a report.
\<close>

theorem inherited_key_no_note:
  "''constructor'' \<in> runKeys loadedD \<and> ''constructor'' \<notin> runKeys loadedB \<and>
   loadAndSort exampleRunsDir [idB, idD] = Inr [loadedB, loadedD] \<and>
   allTargets [loadedB, loadedD] = [''kylix'', ''constructor''] \<and>
   hasTarget [loadedB, loadedD] ''constructor'' \<and>
   targetSection [loadedB, loadedD] ''constructor'' = Inl TypeError \<and>
   compareRuns exampleRunsDir [idB, idD] = Inl TypeError"
proof -
  have 1: "''constructor'' \<in> runKeys loadedD" "''constructor'' \<notin> runKeys loadedB"
    by (simp_all add: example_defs runKeys_def extractMetrics_def setProperty_def)
  have 2: "loadAndSort exampleRunsDir [idB, idD] = Inr [loadedB, loadedD]"
    by (simp add: example_defs loadAndSort_def loadRun_def sortRuns_def)
  have 3: "allTargets [loadedB, loadedD] = [''kylix'', ''constructor'']"
    by (simp add: example_defs allTargets_def setAdd_def extractMetrics_def setProperty_def)
  have 4: "hasTarget [loadedB, loadedD] ''constructor''"
    by (simp add: example_defs compare_defs)
  have 5: "targetSection [loadedB, loadedD] ''constructor'' = Inl TypeError"
    by (simp add: example_defs compare_defs)
  have 6: "compareRuns exampleRunsDir [idB, idD] = Inl TypeError"
    by (simp add: example_defs compare_defs)
  from 1 2 3 4 5 6 show ?thesis by simp
qed

section \<open>Properties of run-benchmark.js\<close>

subsection \<open>The run index\<close>

lemma sort_key_neg_newest_first:
  "sorted_wrt (\<lambda>a b. e_timestamp a \<ge> e_timestamp b) (sort_key (\<lambda>e. - e_timestamp e) xs)"
proof -
  have "sorted (map (\<lambda>e. - e_timestamp e) (sort_key (\<lambda>e. - e_timestamp e) xs))"
    by (rule sorted_sort_key)
  then show ?thesis
    by (simp add: sorted_map sorted_wrt_iff_nth_less)
qed

lemma sorted_wrt_take: "sorted_wrt P xs \<Longrightarrow> sorted_wrt P (take n xs)"
  by (metis append_take_drop_id sorted_wrt_append)

text \<open>
  Claim C5.  Whatever the index file held, the index written back has at most 50 entries,
  newest timestamp first; and when the file held 50 entries, the 51 entries at hand lose
  exactly one, whose timestamp is the oldest among them.
\<close>

theorem index_capped_newest_first:
  fixes indexFile runId timestamp results
  defines "new \<equiv> \<lparr> e_runId = runId, e_timestamp = timestamp,
                     e_targets = map tr_target (run_targets results) \<rparr>"
  defines "written \<equiv> updateRunsIndex indexFile runId timestamp results"
  shows "length written \<le> 50 \<and>
         sorted_wrt (\<lambda>a b. e_timestamp a \<ge> e_timestamp b) written \<and>
         (indexFile = Content idx \<and> length idx = 50 \<longrightarrow>
            (\<exists>evicted. mset written + {#evicted#} = mset idx + {#new#} \<and>
               (\<forall>e \<in> set idx \<union> {new}. e_timestamp evicted \<le> e_timestamp e)))"
proof -
  let ?key = "\<lambda>e. - e_timestamp e"
  let ?old = "case indexFile of Missing \<Rightarrow> [] | Unparseable text \<Rightarrow> [] | Content parsed \<Rightarrow> parsed"
  let ?s = "sort_key ?key (?old @ [new])"
  have w: "written = (if length ?s > 50 then take 50 ?s else ?s)"
    by (simp add: written_def new_def updateRunsIndex_def Let_def)
  have 1: "length written \<le> 50" by (simp add: w)
  have s: "sorted_wrt (\<lambda>a b. e_timestamp a \<ge> e_timestamp b) ?s"
    by (rule sort_key_neg_newest_first)
  have 2: "sorted_wrt (\<lambda>a b. e_timestamp a \<ge> e_timestamp b) written"
    unfolding w using s by (simp add: sorted_wrt_take)
  have 3: "\<exists>evicted. mset written + {#evicted#} = mset idx + {#new#} \<and>
               (\<forall>e \<in> set idx \<union> {new}. e_timestamp evicted \<le> e_timestamp e)"
    if f: "indexFile = Content idx" and len: "length idx = 50"
  proof -
    let ?t = "sort_key ?key (idx @ [new])"
    from f have st: "?s = ?t" by simp
    have lt: "length ?t = 51" using len by simp
    with w st have wt: "written = take 50 ?t" by simp
    have split: "?t = take 50 ?t @ [?t ! 50]"
      using lt by (metis Suc_eq_plus1 lessI numeral_plus_one semiring_norm(5) semiring_norm(8)
          take_Suc_conv_app_nth take_all order_refl)
    have "mset written + {#?t ! 50#} = mset (take 50 ?t @ [?t ! 50])"
      by (simp add: wt)
    also have "\<dots> = mset ?t" by (simp only: split [symmetric])
    also have "\<dots> = mset idx + {#new#}" by simp
    finally have a: "mset written + {#?t ! 50#} = mset idx + {#new#}" .
    have b: "e_timestamp (?t ! 50) \<le> e_timestamp e" if "e \<in> set idx \<union> {new}" for e
    proof -
      from that have "e \<in> set ?t" by auto
      then obtain i where i: "i < length ?t" "?t ! i = e"
        unfolding in_set_conv_nth by blast
      from s st have srt: "sorted_wrt (\<lambda>a b. e_timestamp a \<ge> e_timestamp b) ?t" by simp
      show ?thesis
      proof (cases "i = 50")
        case True
        with i show ?thesis by simp
      next
        case False
        with i lt have "i < 50" by simp
        with srt lt have "e_timestamp (?t ! i) \<ge> e_timestamp (?t ! 50)"
          by (simp add: sorted_wrt_iff_nth_less)
        with i show ?thesis by simp
      qed
    qed
    from a b show ?thesis by blast
  qed
  from 1 2 3 show ?thesis by blast
qed

text \<open>
  Claim C5 on the index of fifty entries at times 0 to 49 and a new run at time 100: the
  new entry comes first, and the entry of time 0 is gone.
\<close>

theorem index_capped_newest_first_witness:
  "length exampleIndex = 50 \<and>
   map e_timestamp (updateRunsIndex (Content exampleIndex) idC 100 runC) =
     100 # rev (map int [1..<50]) \<and>
   (\<exists>evicted.
      mset (updateRunsIndex (Content exampleIndex) idC 100 runC) + {#evicted#} =
        mset exampleIndex +
        {#\<lparr> e_runId = idC, e_timestamp = 100,
            e_targets = map tr_target (run_targets runC) \<rparr>#} \<and>
      e_timestamp evicted \<le> 0)"
proof -
  let ?new = "\<lparr> e_runId = idC, e_timestamp = 100,
                e_targets = map tr_target (run_targets runC) \<rparr>"
  let ?oldest = "\<lparr> e_runId = ''old'', e_timestamp = 0, e_targets = [''kylix''] \<rparr>"
  have len: "length exampleIndex = 50" by (simp add: exampleIndex_def)
  have ev: "map e_timestamp (updateRunsIndex (Content exampleIndex) idC 100 runC) =
              100 # rev (map int [1..<50])"
    by code_simp
  have "?oldest \<in> set exampleIndex"
    unfolding exampleIndex_def set_map by (rule image_eqI [of _ _ 0]) simp_all
  then have old: "?oldest \<in> set exampleIndex \<union> {?new}" by simp
  from index_capped_newest_first [of "Content exampleIndex" idC 100 runC exampleIndex] len
  obtain evicted
    where a: "mset (updateRunsIndex (Content exampleIndex) idC 100 runC) + {#evicted#} =
                mset exampleIndex + {#?new#}"
      and b: "\<forall>e \<in> set exampleIndex \<union> {?new}. e_timestamp evicted \<le> e_timestamp e"
    by blast
  from b old have "e_timestamp evicted \<le> e_timestamp ?oldest" by (rule bspec)
  then have "e_timestamp evicted \<le> 0" by simp
  with a len ev show ?thesis by blast
qed


text \<open>
  Claim C10.  When the index file exists and is not JSON, whatever its text, and the loop
  over the targets completes, the run ends with status 0; the index it writes holds the
  entry of this run and nothing else; the lines written with \<^verbatim>\<open>console.error\<close> are those
  of the loop over the targets, none about the index; and the whole outcome is the one of
  the same run with no index file at all.
\<close>

theorem unparseable_index_replaced:
  assumes "benchmarkTargets env selectedTargets \<lparr> ls_results = [], ls_errors = [] \<rparr> = Inr st"
  shows "\<exists>report.
           benchmarkProcess env selectedTargets (Unparseable text) runId runTimestamp =
             Exit0 report \<and>
           rep_index report =
             [\<lparr> e_runId = runId, e_timestamp = runTimestamp,
                e_targets = map tr_target (ls_results st) \<rparr>] \<and>
           rep_index report =
             updateRunsIndex (Unparseable text) runId runTimestamp (rep_results report) \<and>
           rep_errors report = ls_errors st \<and>
           benchmarkProcess env selectedTargets Missing runId runTimestamp = Exit0 report"
  using assms
  by (simp add: benchmarkProcess_def runAllBenchmarks_def updateRunsIndex_def Let_def)

text \<open>
  Claim C10 on the example configuration, on a host without k6 and with an index file cut
  off in the middle, which held the entry of run A: the run of 10:05 ends with status 0,
  its index holds its own entry alone, and nothing is written with \<^verbatim>\<open>console.error\<close>.
\<close>

theorem unparseable_index_replaced_witness:
  "benchmarkTargets noK6Env [''kylix'', ''pyxis''] \<lparr> ls_results = [], ls_errors = [] \<rparr> =
     Inr \<lparr> ls_results =
             [\<lparr> tr_target = ''kylix'', tr_url = Some ''http://kylix.local'',
                tr_playwright = Some \<lparr> pw_error = None, pw_tests = [pageLoadTest 245] \<rparr>,
                tr_k6 = None \<rparr>,
              \<lparr> tr_target = ''pyxis'', tr_url = Some ''http://pyxis.local'',
                tr_playwright = Some \<lparr> pw_error = None, pw_tests = [pageLoadTest 245] \<rparr>,
                tr_k6 = None \<rparr>],
           ls_errors = [] \<rparr> \<and>
   (\<exists>report.
      benchmarkProcess noK6Env [''kylix'', ''pyxis''] (Unparseable truncatedIndex)
        idB 1768730700000 = Exit0 report \<and>
      rep_index report =
        [\<lparr> e_runId = idB, e_timestamp = 1768730700000, e_targets = [''kylix'', ''pyxis''] \<rparr>] \<and>
      rep_errors report = [])"
proof -
  let ?st = "\<lparr> ls_results =
             [\<lparr> tr_target = ''kylix'', tr_url = Some ''http://kylix.local'',
                tr_playwright = Some \<lparr> pw_error = None, pw_tests = [pageLoadTest 245] \<rparr>,
                tr_k6 = None \<rparr>,
              \<lparr> tr_target = ''pyxis'', tr_url = Some ''http://pyxis.local'',
                tr_playwright = Some \<lparr> pw_error = None, pw_tests = [pageLoadTest 245] \<rparr>,
                tr_k6 = None \<rparr>],
           ls_errors = [] \<rparr>"
  have h: "benchmarkTargets noK6Env [''kylix'', ''pyxis''] \<lparr> ls_results = [], ls_errors = [] \<rparr> =
             Inr ?st"
    by (simp add: noK6Env_def exampleEnv_def lookupTarget_def lookupUrl_def runK6Benchmark_def
        runK6BenchmarkErrors_def Let_def)
  from unparseable_index_replaced [OF h, of truncatedIndex idB 1768730700000]
  have "\<exists>report.
      benchmarkProcess noK6Env [''kylix'', ''pyxis''] (Unparseable truncatedIndex)
        idB 1768730700000 = Exit0 report \<and>
      rep_index report =
        [\<lparr> e_runId = idB, e_timestamp = 1768730700000, e_targets = [''kylix'', ''pyxis''] \<rparr>] \<and>
      rep_errors report = []"
    by auto
  with h show ?thesis by (simp only: simp_thms)
qed

subsection \<open>The load probe\<close>

lemma benchmarkTargets_found:
  assumes "\<forall>name \<in> set selected. lookupTarget (env_targets env) name \<noteq> NoTarget \<longrightarrow>
             (\<exists>b. env_playwright env name (lookupUrl (lookupTarget (env_targets env) name)) = Inr b)"
  shows "\<exists>st'. benchmarkTargets env selected st = Inr st' \<and>
           map tr_target (ls_results st') =
             map tr_target (ls_results st) @
             filter (\<lambda>name. lookupTarget (env_targets env) name \<noteq> NoTarget) selected"
  using assms
proof (induction selected arbitrary: st)
  case Nil
  show ?case by simp
next
  case (Cons name rest)
  from Cons.prems have rest: "\<forall>name \<in> set rest.
      lookupTarget (env_targets env) name \<noteq> NoTarget \<longrightarrow>
      (\<exists>b. env_playwright env name (lookupUrl (lookupTarget (env_targets env) name)) = Inr b)"
    by simp
  let ?found = "lookupTarget (env_targets env) name"
  show ?case
  proof (cases "?found = NoTarget")
    case True
    let ?st = "st\<lparr>ls_errors := ls_errors st @ [UnknownTarget name]\<rparr>"
    from Cons.IH [OF rest, of ?st] obtain st'
      where r: "benchmarkTargets env rest ?st = Inr st'"
        and m: "map tr_target (ls_results st') = map tr_target (ls_results ?st) @
                  filter (\<lambda>name. lookupTarget (env_targets env) name \<noteq> NoTarget) rest"
      by blast
    from True r have "benchmarkTargets env (name # rest) st = Inr st'" by simp
    moreover from True m have "map tr_target (ls_results st') = map tr_target (ls_results st) @
        filter (\<lambda>name. lookupTarget (env_targets env) name \<noteq> NoTarget) (name # rest)"
      by simp
    ultimately show ?thesis by blast
  next
    case False
    with Cons.prems obtain b where b: "env_playwright env name (lookupUrl ?found) = Inr b"
      by auto
    let ?rec = "\<lparr> tr_target = name, tr_url = lookupUrl ?found, tr_playwright = Some b,
                  tr_k6 = runK6Benchmark (env_JSON_parse env) (env_host env name) name
                            (lookupUrl ?found) (env_outputFile env name) \<rparr>"
    let ?st = "\<lparr> ls_results = ls_results st @ [?rec],
                 ls_errors = ls_errors st @ runK6BenchmarkErrors (env_host env name) name \<rparr>"
    from Cons.IH [OF rest, of ?st] obtain st'
      where r: "benchmarkTargets env rest ?st = Inr st'"
        and m: "map tr_target (ls_results st') = map tr_target (ls_results ?st) @
                  filter (\<lambda>name. lookupTarget (env_targets env) name \<noteq> NoTarget) rest"
      by blast
    from False b r have "benchmarkTargets env (name # rest) st = Inr st'"
      by (cases ?found) (simp_all add: Let_def)
    moreover from False m have "map tr_target (ls_results st') = map tr_target (ls_results st) @
        filter (\<lambda>name. lookupTarget (env_targets env) name \<noteq> NoTarget) (name # rest)"
      by simp
    ultimately show ?thesis by blast
  qed
qed

text \<open>
  Claim C7, as stated, fails on the code: on a host where the k6 binary is located and the
  command \<^verbatim>\<open>k6 version\<close> fails, the load probe returns null.
\<close>

theorem located_k6_null:
  "k6Located brokenK6Host \<and>
   runK6Benchmark exampleParse brokenK6Host ''kylix'' (Some ''http://kylix.local'')
     ''results/runs/2026-01-18_10-00-00/kylix-k6-results.json'' = None"
  by (simp add: brokenK6Host_def k6Located_def runK6Benchmark_def)

text \<open>
  Claim C7, amended.  The load probe returns null exactly when the command
  \<^verbatim>\<open>k6 version\<close> fails, which it does when the k6 binary cannot be located and may do
  when it is located; when that command succeeds and the load run fails, the result
  carries the message of the error; and whatever the load probes give, the loop over the
  selected targets completes with one record per target found, provided the browser
  probes resolve.
\<close>

theorem load_probe_outcomes:
  "(runK6Benchmark JSON_parse host targetName url outputFile = None \<longleftrightarrow>
      h_version host \<noteq> Returned) \<and>
   (\<not> k6Located host \<longrightarrow>
      runK6Benchmark JSON_parse host targetName url outputFile = None) \<and>
   (h_version host = Returned \<and> (h_run host = Threw message \<or> h_run host = NotFound message) \<longrightarrow>
      (\<exists>r. runK6Benchmark JSON_parse host targetName url outputFile = Some r \<and>
           k6_error r = Some message)) \<and>
   ((\<forall>name \<in> set selected. lookupTarget (env_targets env) name \<noteq> NoTarget \<longrightarrow>
        (\<exists>b. env_playwright env name (lookupUrl (lookupTarget (env_targets env) name)) = Inr b)) \<longrightarrow>
      (\<exists>st. benchmarkTargets env selected \<lparr> ls_results = [], ls_errors = [] \<rparr> = Inr st \<and>
         map tr_target (ls_results st) =
           filter (\<lambda>name. lookupTarget (env_targets env) name \<noteq> NoTarget) selected))"
proof -
  have 1: "runK6Benchmark JSON_parse host targetName url outputFile = None \<longleftrightarrow>
      h_version host \<noteq> Returned"
    by (cases "h_version host"; cases "h_run host") (simp_all add: runK6Benchmark_def)
  have 2: "runK6Benchmark JSON_parse host targetName url outputFile = None"
    if "\<not> k6Located host"
    using that by (cases "h_version host") (simp_all add: runK6Benchmark_def k6Located_def)
  have 3: "\<exists>r. runK6Benchmark JSON_parse host targetName url outputFile = Some r \<and>
           k6_error r = Some message"
    if "h_version host = Returned \<and> (h_run host = Threw message \<or> h_run host = NotFound message)"
    using that by (auto simp: runK6Benchmark_def)
  have 4: "\<exists>st. benchmarkTargets env selected \<lparr> ls_results = [], ls_errors = [] \<rparr> = Inr st \<and>
         map tr_target (ls_results st) =
           filter (\<lambda>name. lookupTarget (env_targets env) name \<noteq> NoTarget) selected"
    if "\<forall>name \<in> set selected. lookupTarget (env_targets env) name \<noteq> NoTarget \<longrightarrow>
        (\<exists>b. env_playwright env name (lookupUrl (lookupTarget (env_targets env) name)) = Inr b)"
    using benchmarkTargets_found [OF that, of "\<lparr> ls_results = [], ls_errors = [] \<rparr>"] by simp
  from 1 2 3 4 show ?thesis by blast
qed

text \<open>
  Claim C7, amended, on the example configuration, with an unknown target among the
  selected ones: kylix, probed without k6 on the host, gets the null load result, pyxis
  the one with the error, and both are recorded.
\<close>

theorem load_probe_outcomes_witness:
  "\<not> k6Located (env_host exampleEnv ''kylix'') \<and>
   h_version (env_host exampleEnv ''pyxis'') = Returned \<and>
   h_run (env_host exampleEnv ''pyxis'') = Threw ''Command failed: k6 run'' \<and>
   benchmarkTargets exampleEnv [''kylix'', ''nosuch'', ''pyxis'']
       \<lparr> ls_results = [], ls_errors = [] \<rparr> =
     Inr \<lparr> ls_results =
             [\<lparr> tr_target = ''kylix'', tr_url = Some ''http://kylix.local'',
                tr_playwright = Some \<lparr> pw_error = None, pw_tests = [pageLoadTest 245] \<rparr>,
                tr_k6 = None \<rparr>,
              \<lparr> tr_target = ''pyxis'', tr_url = Some ''http://pyxis.local'',
                tr_playwright = Some \<lparr> pw_error = None, pw_tests = [pageLoadTest 245] \<rparr>,
                tr_k6 = Some \<lparr> k6_target = ''pyxis'', k6_url = Some ''http://pyxis.local'',
                                k6_error = Some ''Command failed: k6 run'',
                                k6_metricsFile = None, k6_totalRequests = None \<rparr> \<rparr>],
           ls_errors = [UnknownTarget ''nosuch'',
                        K6TestFailed ''pyxis'' ''Command failed: k6 run''] \<rparr>"
proof -
  let ?sel = "[''kylix'', ''nosuch'', ''pyxis'']"
  have h: "\<forall>name \<in> set ?sel. lookupTarget (env_targets exampleEnv) name \<noteq> NoTarget \<longrightarrow>
        (\<exists>b. env_playwright exampleEnv name
                (lookupUrl (lookupTarget (env_targets exampleEnv) name)) = Inr b)"
    by (simp add: exampleEnv_def)
  have v1: "\<not> k6Located (env_host exampleEnv ''kylix'')"
    and v2: "h_version (env_host exampleEnv ''pyxis'') = Returned"
    and v3: "h_run (env_host exampleEnv ''pyxis'') = Threw ''Command failed: k6 run''"
    by (simp_all add: exampleEnv_def k6Located_def)
  note inst = load_probe_outcomes [where env = exampleEnv and selected = ?sel
      and JSON_parse = exampleParse]
  from inst [where host = "env_host exampleEnv ''kylix''" and targetName = "''kylix''"
      and url = "Some ''http://kylix.local''"
      and outputFile = "env_outputFile exampleEnv ''kylix''"] v1
  have k: "runK6Benchmark exampleParse (env_host exampleEnv ''kylix'') ''kylix''
             (Some ''http://kylix.local'') (env_outputFile exampleEnv ''kylix'') = None"
    by blast
  from inst [where host = "env_host exampleEnv ''pyxis''" and targetName = "''pyxis''"
      and url = "Some ''http://pyxis.local''"
      and outputFile = "env_outputFile exampleEnv ''pyxis''"
      and message = "''Command failed: k6 run''"] v2 v3
  obtain r where p: "runK6Benchmark exampleParse (env_host exampleEnv ''pyxis'') ''pyxis''
             (Some ''http://pyxis.local'') (env_outputFile exampleEnv ''pyxis'') = Some r"
    and e: "k6_error r = Some ''Command failed: k6 run''"
    by blast
  have ev: "benchmarkTargets exampleEnv ?sel \<lparr> ls_results = [], ls_errors = [] \<rparr> =
     Inr \<lparr> ls_results =
             [\<lparr> tr_target = ''kylix'', tr_url = Some ''http://kylix.local'',
                tr_playwright = Some \<lparr> pw_error = None, pw_tests = [pageLoadTest 245] \<rparr>,
                tr_k6 = None \<rparr>,
              \<lparr> tr_target = ''pyxis'', tr_url = Some ''http://pyxis.local'',
                tr_playwright = Some \<lparr> pw_error = None, pw_tests = [pageLoadTest 245] \<rparr>,
                tr_k6 = Some \<lparr> k6_target = ''pyxis'', k6_url = Some ''http://pyxis.local'',
                                k6_error = Some ''Command failed: k6 run'',
                                k6_metricsFile = None, k6_totalRequests = None \<rparr> \<rparr>],
           ls_errors = [UnknownTarget ''nosuch'',
                        K6TestFailed ''pyxis'' ''Command failed: k6 run''] \<rparr>"
    using k by (simp add: exampleEnv_def lookupTarget_def lookupUrl_def objectPrototypeNames_def
        runK6Benchmark_def runK6BenchmarkErrors_def Let_def)
  from v1 v2 v3 ev show ?thesis by simp
qed

subsection \<open>The lines of the k6 output\<close>

lemma splitOn_append: "splitOn c (xs @ c # ys) = splitOn c xs @ splitOn c ys"
proof (induction xs)
  case Nil
  show ?case by simp
next
  case (Cons x xs)
  show ?case
  proof (cases "x = c")
    case True
    with Cons show ?thesis by simp
  next
    case False
    obtain s ss where s: "splitOn c xs = s # ss"
      by (cases xs; cases "splitOn c xs") (auto split: if_splits list.splits)
    with False Cons show ?thesis by simp
  qed
qed

lemma splitOn_none: "c \<notin> set xs \<Longrightarrow> splitOn c xs = [xs]"
  by (induction xs) auto

lemma trim_middle:
  assumes "\<not> list_all isWhite a" and "\<not> list_all isWhite b"
  shows "trim (a @ mid @ b) =
           dropWhile isWhite a @ mid @ rev (dropWhile isWhite (rev b))"
proof -
  from assms(1) obtain x where x: "x \<in> set a" "\<not> isWhite x"
    by (auto simp: list_all_iff)
  from assms(2) obtain y where y: "y \<in> set (rev b)" "\<not> isWhite y"
    by (auto simp: list_all_iff)
  from x have 1: "dropWhile isWhite (a @ mid @ b) = dropWhile isWhite a @ mid @ b"
    by (rule dropWhile_append1)
  from y have 2: "dropWhile isWhite (rev b @ rev mid @ rev (dropWhile isWhite a)) =
      dropWhile isWhite (rev b) @ rev mid @ rev (dropWhile isWhite a)"
    by (rule dropWhile_append1)
  show ?thesis
    by (simp add: trim_def 1 2)
qed

lemma count_points:
  "length (parseK6 JSON_parse (Text rawResults)) =
     length (filter (\<lambda>line. isPoint (JSON_parse line)) (k6Lines rawResults))"
proof (cases "trim rawResults = []")
  case True
  moreover have "trim [] = []" by (simp add: trim_def)
  ultimately show ?thesis by (simp add: parseK6_def k6Lines_def)
next
  case False
  then show ?thesis by (simp add: parseK6_def filter_map o_def)
qed

lemma k6Lines_with_bad_line:
  assumes "\<not> list_all isWhite a" and "\<not> list_all isWhite b" and "10 \<notin> set bad"
    and "\<not> isPoint (JSON_parse bad)"
  shows "filter (\<lambda>line. isPoint (JSON_parse line)) (k6Lines (a @ [10] @ bad @ [10] @ b)) =
         filter (\<lambda>line. isPoint (JSON_parse line)) (k6Lines (a @ [10] @ b))"
proof -
  let ?l = "dropWhile isWhite a" and ?r = "rev (dropWhile isWhite (rev b))"
  have 1: "trim (a @ [10] @ bad @ [10] @ b) = ?l @ 10 # bad @ 10 # ?r"
    using trim_middle [OF assms(1,2), of "[10] @ bad @ [10]"] by simp
  have 2: "trim (a @ [10] @ b) = ?l @ 10 # ?r"
    using trim_middle [OF assms(1,2), of "[10]"] by simp
  have 3: "splitOn 10 (?l @ 10 # bad @ 10 # ?r) = splitOn 10 ?l @ [bad] @ splitOn 10 ?r"
    by (simp add: splitOn_append splitOn_none [OF assms(3)])
  have 4: "splitOn 10 (?l @ 10 # ?r) = splitOn 10 ?l @ splitOn 10 ?r"
    by (rule splitOn_append)
  show ?thesis
    unfolding k6Lines_def 1 2 3 4 using assms(4) by simp
qed

text \<open>
  Claim C8.  Once k6 has run, the load result is a success whatever the output file holds,
  and its \<open>totalRequests\<close> is the number of non-blank lines that parse to an object of
  type Point: a line that \<^verbatim>\<open>JSON.parse\<close> rejects, put between two lines of the file,
  leaves the count as it is without it.
\<close>

theorem malformed_line_dropped:
  assumes "h_version host = Returned" and "h_run host = Returned"
    and "JSON_parse bad = None" and "10 \<notin> set bad"
    and "\<not> list_all isWhite a" and "\<not> list_all isWhite b"
  shows "\<exists>r r'.
           runK6Benchmark JSON_parse (host\<lparr>h_output := Text (a @ [10] @ bad @ [10] @ b)\<rparr>)
             targetName targetUrl outputFile = Some r \<and>
           runK6Benchmark JSON_parse (host\<lparr>h_output := Text (a @ [10] @ b)\<rparr>)
             targetName targetUrl outputFile = Some r' \<and>
           k6_error r = None \<and>
           k6_totalRequests r = k6_totalRequests r' \<and>
           k6_totalRequests r =
             Some (length (filter (\<lambda>line. isPoint (JSON_parse line))
                            (k6Lines (a @ [10] @ bad @ [10] @ b))))"
proof -
  from assms(3) have nb: "\<not> isPoint (JSON_parse bad)" by simp
  have eq: "length (parseK6 JSON_parse (Text (a @ [10] @ bad @ [10] @ b))) =
            length (parseK6 JSON_parse (Text (a @ [10] @ b)))"
    by (simp only: count_points k6Lines_with_bad_line [of a b bad JSON_parse, OF assms(5,6,4) nb])
  show ?thesis
    using assms(1,2) eq
    by (simp add: runK6Benchmark_def count_points [symmetric])
qed

text \<open>
  Claim C8 on the example output, whose third line is \<^verbatim>\<open>not json\<close>: the two Point lines
  are counted, with the malformed line and without it.
\<close>

lemmas k6_example_defs = pointLine_def metricLine_def js_def exampleParse_def exampleHost_def
  exampleOutput_def

theorem malformed_line_dropped_witness:
  "h_version exampleHost = Returned \<and> h_run exampleHost = Returned \<and>
   exampleParse (js ''not json'') = None \<and> 10 \<notin> set (js ''not json'') \<and>
   \<not> list_all isWhite (metricLine @ [10] @ pointLine) \<and>
   \<not> list_all isWhite (pointLine @ [10]) \<and>
   runK6Benchmark exampleParse exampleHost ''kylix'' (Some ''http://kylix.local'') ''kylix-k6-results.json'' =
     Some \<lparr> k6_target = ''kylix'', k6_url = Some ''http://kylix.local'', k6_error = None,
            k6_metricsFile = Some ''kylix-k6-results.json'', k6_totalRequests = Some 2 \<rparr> \<and>
   (\<exists>r'. runK6Benchmark exampleParse
           (exampleHost\<lparr>h_output := Text ((metricLine @ [10] @ pointLine) @ [10] @ pointLine @ [10])\<rparr>)
           ''kylix'' (Some ''http://kylix.local'') ''kylix-k6-results.json'' = Some r' \<and>
         k6_totalRequests r' = Some 2)"
proof -
  let ?a = "metricLine @ [10] @ pointLine" and ?bad = "js ''not json''" and ?b = "pointLine @ [10]"
  have h1: "h_version exampleHost = Returned" and h2: "h_run exampleHost = Returned"
    by (simp_all add: exampleHost_def)
  have h3: "exampleParse ?bad = None" by (simp add: k6_example_defs)
  have h4: "10 \<notin> set ?bad" by (simp add: js_def)
  have h5: "\<not> list_all isWhite ?a" by (simp add: k6_example_defs isWhite_def)
  have h6: "\<not> list_all isWhite ?b" by (simp add: k6_example_defs isWhite_def)
  have host: "exampleHost\<lparr>h_output := Text (?a @ [10] @ ?bad @ [10] @ ?b)\<rparr> = exampleHost"
    by (simp add: exampleHost_def exampleOutput_def)
  have ev: "runK6Benchmark exampleParse exampleHost ''kylix'' (Some ''http://kylix.local'')
              ''kylix-k6-results.json'' =
     Some \<lparr> k6_target = ''kylix'', k6_url = Some ''http://kylix.local'', k6_error = None,
            k6_metricsFile = Some ''kylix-k6-results.json'', k6_totalRequests = Some 2 \<rparr>"
    by (simp add: k6_example_defs runK6Benchmark_def parseK6_def k6Lines_def trim_def
          isWhite_def)
  from malformed_line_dropped [where host = exampleHost and JSON_parse = exampleParse
      and bad = ?bad and a = ?a and b = ?b and targetName = "''kylix''"
      and targetUrl = "Some ''http://kylix.local''" and outputFile = "''kylix-k6-results.json''",
      OF h1 h2 h3 h4 h5 h6]
  obtain r r' where r: "runK6Benchmark exampleParse exampleHost ''kylix'' (Some ''http://kylix.local'')
              ''kylix-k6-results.json'' = Some r"
    and r': "runK6Benchmark exampleParse (exampleHost\<lparr>h_output := Text (?a @ [10] @ ?b)\<rparr>)
           ''kylix'' (Some ''http://kylix.local'') ''kylix-k6-results.json'' = Some r'"
    and eq: "k6_totalRequests r = k6_totalRequests r'"
    unfolding host by blast
  from r ev have "k6_totalRequests r = Some 2" by auto
  with eq have "k6_totalRequests r' = Some 2" by simp
  with r' have ex: "\<exists>r'. runK6Benchmark exampleParse (exampleHost\<lparr>h_output := Text (?a @ [10] @ ?b)\<rparr>)
           ''kylix'' (Some ''http://kylix.local'') ''kylix-k6-results.json'' = Some r' \<and>
         k6_totalRequests r' = Some 2" by blast
  show ?thesis
    by (intro conjI) (rule h1 h2 h3 h4 h5 h6 ev ex)+
qed

subsection \<open>The run identifier\<close>

lemma of_char_digit: "of_char (digit (x mod 10)) = 48 + x mod 10"
proof -
  have "x mod 10 < 10" by simp
  then have "(48 + x mod 10) mod 256 = 48 + x mod 10" by simp
  then show ?thesis by (simp add: digit_def)
qed

lemma digit_less: "digit (x mod 10) < digit (y mod 10) \<longleftrightarrow> x mod 10 < y mod 10"
  by (simp add: less_char_def of_char_digit)

lemma digit_eq: "digit (x mod 10) = digit (y mod 10) \<longleftrightarrow> x mod 10 = y mod 10"
proof
  assume "digit (x mod 10) = digit (y mod 10)"
  then have "(of_char (digit (x mod 10)) :: nat) = of_char (digit (y mod 10))" by simp
  then show "x mod 10 = y mod 10" by (simp add: of_char_digit)
next
  assume "x mod 10 = y mod 10"
  then show "digit (x mod 10) = digit (y mod 10)" by simp
qed

lemma digit_not_separator:
  "digit (x mod 10) \<noteq> CHR ''T''" "digit (x mod 10) \<noteq> CHR '':''"
  "digit (x mod 10) \<noteq> CHR ''.''" "digit (x mod 10) \<noteq> CHR ''-''"
proof -
  have "(of_char (digit (x mod 10)) :: nat) \<noteq> of_char c" if "(of_char c :: nat) \<notin> {48..57}" for c
  proof -
    have "x mod 10 < 10" by simp
    then have "48 + x mod 10 \<in> {48..57}" by simp
    with that show ?thesis by (simp only: of_char_digit) metis
  qed
  then have *: "digit (x mod 10) \<noteq> c" if "(of_char c :: nat) \<notin> {48..57}" for c
    using that by blast
  show "digit (x mod 10) \<noteq> CHR ''T''" by (rule *) simp
  show "digit (x mod 10) \<noteq> CHR '':''" by (rule *) simp
  show "digit (x mod 10) \<noteq> CHR ''.''" by (rule *) simp
  show "digit (x mod 10) \<noteq> CHR ''-''" by (rule *) simp
qed

lemma runIdOf_toISOString:
  "runIdOf (toISOString t) =
     Some (pad4 (year t) @ ''-'' @ pad2 (month t) @ ''-'' @ pad2 (day t) @ ''_'' @
           pad2 (hour t) @ ''-'' @ pad2 (minute t) @ ''-'' @ pad2 (second t))"
  by (simp add: runIdOf_def toISOString_def pad2_def pad3_def pad4_def replaceAll_def
        digit_not_separator)

lemma div_mod_lex:
  fixes m n b :: nat
  shows "m div b < n div b \<or> (m div b = n div b \<and> m mod b < n mod b) \<longleftrightarrow> m < n"
proof
  assume "m div b < n div b \<or> (m div b = n div b \<and> m mod b < n mod b)"
  then show "m < n"
  proof
    assume "m div b < n div b"
    then have "\<not> n div b \<le> m div b" by simp
    then have "\<not> n \<le> m" using div_le_mono [of n m b] by blast
    then show ?thesis by simp
  next
    assume a: "m div b = n div b \<and> m mod b < n mod b"
    then have eq: "m div b = n div b" and lt: "m mod b < n mod b" by simp_all
    from lt have "m div b * b + m mod b < m div b * b + n mod b"
      by (rule add_strict_left_mono)
    then have "m div b * b + m mod b < n div b * b + n mod b" by (simp only: eq)
    then show ?thesis by (simp only: div_mult_mod_eq)
  qed
next
  assume less: "m < n"
  then have le: "m div b \<le> n div b" by (simp add: div_le_mono)
  show "m div b < n div b \<or> (m div b = n div b \<and> m mod b < n mod b)"
  proof (cases "m div b = n div b")
    case True
    from less have "m div b * b + m mod b < n div b * b + n mod b"
      by (simp only: div_mult_mod_eq)
    then have "n div b * b + m mod b < n div b * b + n mod b" by (simp only: True)
    then have "m mod b < n mod b" by (simp only: add_less_cancel_left)
    with True show ?thesis by simp
  next
    case False
    with le show ?thesis by simp
  qed
qed

lemma div_mod_eq_iff:
  fixes m n b :: nat
  shows "m div b = n div b \<and> m mod b = n mod b \<longleftrightarrow> m = n"
proof
  assume "m div b = n div b \<and> m mod b = n mod b"
  then have e1: "m div b = n div b" and e2: "m mod b = n mod b" by simp_all
  have "m div b * b + m mod b = n div b * b + n mod b" by (simp only: e1 e2)
  then show "m = n" by (simp only: div_mult_mod_eq)
next
  assume "m = n"
  then show "m div b = n div b \<and> m mod b = n mod b" by simp
qed

lemma lex_append_less:
  fixes a b x y :: string
  assumes "length a = length b"
  shows "a @ x < b @ y \<longleftrightarrow> a < b \<or> (a = b \<and> x < y)"
  using assms
proof (induction a b rule: list_induct2)
  case Nil
  show ?case by simp
next
  case (Cons c cs d ds)
  then show ?case by auto
qed

lemma pad2_less:
  assumes "m < 100" and "n < 100"
  shows "pad2 m < pad2 n \<longleftrightarrow> m < n"
proof -
  from assms have m: "m div 10 mod 10 = m div 10" and n: "n div 10 mod 10 = n div 10"
    by simp_all
  have "pad2 m < pad2 n \<longleftrightarrow>
          m div 10 mod 10 < n div 10 mod 10 \<or>
          (m div 10 mod 10 = n div 10 mod 10 \<and> m mod 10 < n mod 10)"
    by (simp add: pad2_def digit_less digit_eq)
  also have "\<dots> \<longleftrightarrow> m < n" unfolding m n by (rule div_mod_lex)
  finally show ?thesis .
qed

lemma pad2_eq:
  assumes "m < 100" and "n < 100"
  shows "pad2 m = pad2 n \<longleftrightarrow> m = n"
proof -
  from assms have m: "m div 10 mod 10 = m div 10" and n: "n div 10 mod 10 = n div 10"
    by simp_all
  have "pad2 m = pad2 n \<longleftrightarrow>
          m div 10 mod 10 = n div 10 mod 10 \<and> m mod 10 = n mod 10"
    by (simp add: pad2_def digit_eq)
  also have "\<dots> \<longleftrightarrow> m = n" unfolding m n by (rule div_mod_eq_iff)
  finally show ?thesis .
qed

lemma length_pad2: "length (pad2 n) = 2"
  by (simp add: pad2_def)

lemma pad4_pad2: "pad4 n = pad2 (n div 100) @ pad2 (n mod 100)"
proof -
  have "n div 100 div 10 = n div 1000" by (simp add: div_mult2_eq)
  moreover have "n mod 100 div 10 mod 10 = n div 10 mod 10"
    using mod_mult2_eq [of n 10 10] by simp
  moreover have "n mod 100 mod 10 = n mod 10"
    using mod_mod_cancel [of 10 100 n] by simp
  ultimately show ?thesis by (simp add: pad4_def pad2_def)
qed

lemma pad4_less:
  assumes "m < 10000" and "n < 10000"
  shows "pad4 m < pad4 n \<longleftrightarrow> m < n"
proof -
  from assms have d: "m div 100 < 100" "n div 100 < 100" by simp_all
  have r: "m mod 100 < 100" "n mod 100 < 100" by simp_all
  have "pad4 m < pad4 n \<longleftrightarrow>
          m div 100 < n div 100 \<or> (m div 100 = n div 100 \<and> m mod 100 < n mod 100)"
    by (simp add: pad4_pad2 lex_append_less length_pad2 pad2_less pad2_eq d r)
  also have "\<dots> \<longleftrightarrow> m < n" by (rule div_mod_lex)
  finally show ?thesis .
qed

lemma pad4_eq:
  assumes "m < 10000" and "n < 10000"
  shows "pad4 m = pad4 n \<longleftrightarrow> m = n"
proof -
  from assms have d: "m div 100 < 100" "n div 100 < 100" by simp_all
  have r: "m mod 100 < 100" "n mod 100 < 100" by simp_all
  have "pad4 m = pad4 n \<longleftrightarrow> m div 100 = n div 100 \<and> m mod 100 = n mod 100"
    by (simp add: pad4_pad2 length_pad2 pad2_eq d r)
  also have "\<dots> \<longleftrightarrow> m = n" by (rule div_mod_eq_iff)
  finally show ?thesis .
qed

lemma length_pad4: "length (pad4 n) = 4"
  by (simp add: pad4_def)

lemma runId_less:
  assumes "valid_iso a" and "valid_iso b"
  shows "pad4 (year a) @ ''-'' @ pad2 (month a) @ ''-'' @ pad2 (day a) @ ''_'' @
           pad2 (hour a) @ ''-'' @ pad2 (minute a) @ ''-'' @ pad2 (second a)
         < pad4 (year b) @ ''-'' @ pad2 (month b) @ ''-'' @ pad2 (day b) @ ''_'' @
           pad2 (hour b) @ ''-'' @ pad2 (minute b) @ ''-'' @ pad2 (second b)
         \<longleftrightarrow> earlierSecond a b"
proof -
  from assms have bounds:
    "year a < 10000" "month a < 100" "day a < 100" "hour a < 100" "minute a < 100"
    "second a < 100"
    "year b < 10000" "month b < 100" "day b < 100" "hour b < 100" "minute b < 100"
    "second b < 100"
    by (simp_all add: valid_iso_def)
  have s: "pad2 m @ x < pad2 n @ y \<longleftrightarrow> m < n \<or> (m = n \<and> x < y)"
    if "m < 100" "n < 100" for m n x y
    using that by (simp add: lex_append_less length_pad2 pad2_less pad2_eq)
  have y: "pad4 m @ x < pad4 n @ y \<longleftrightarrow> m < n \<or> (m = n \<and> x < y)"
    if "m < 10000" "n < 10000" for m n x y
    using that by (simp add: lex_append_less length_pad4 pad4_less pad4_eq)
  have last: "pad2 m < pad2 n \<longleftrightarrow> m < n" if "m < 100" "n < 100" for m n
    using that by (rule pad2_less)
  show ?thesis
    by (simp add: y s last bounds earlierSecond_def)
qed

text \<open>
  Claim C6.  For two start instants with four-digit years, the run ids are defined, the
  run id of the one is lexically less than the run id of the other exactly when the one
  lies in an earlier second, and instants in distinct seconds have distinct run ids.
\<close>

theorem runId_increasing:
  assumes "valid_iso a" and "valid_iso b"
  shows "\<exists>ra rb. runIdOf (toISOString a) = Some ra \<and> runIdOf (toISOString b) = Some rb \<and>
           (ra < rb \<longleftrightarrow> earlierSecond a b) \<and>
           (earlierSecond a b \<or> earlierSecond b a \<longrightarrow> ra \<noteq> rb)"
proof -
  let ?id = "\<lambda>t. pad4 (year t) @ ''-'' @ pad2 (month t) @ ''-'' @ pad2 (day t) @ ''_'' @
           pad2 (hour t) @ ''-'' @ pad2 (minute t) @ ''-'' @ pad2 (second t)"
  have ra: "runIdOf (toISOString a) = Some (?id a)" by (rule runIdOf_toISOString)
  have rb: "runIdOf (toISOString b) = Some (?id b)" by (rule runIdOf_toISOString)
  have ab: "?id a < ?id b \<longleftrightarrow> earlierSecond a b" by (rule runId_less [OF assms])
  have ba: "?id b < ?id a \<longleftrightarrow> earlierSecond b a" by (rule runId_less [OF assms(2,1)])
  have ne: "?id a \<noteq> ?id b" if "earlierSecond a b \<or> earlierSecond b a"
  proof -
    from that ab ba have "?id a < ?id b \<or> ?id b < ?id a" by (simp only:)
    then show ?thesis by (rule disjE) (simp_all only: less_imp_neq less_imp_neq [THEN not_sym] not_False_eq_True)
  qed
  from ra rb ab ne show ?thesis by blast
qed

text \<open>
  Claim C6 on the starts of runs A and B, five minutes apart: the run id of A is less than
  the run id of B.
\<close>

theorem runId_increasing_witness:
  "valid_iso startA \<and> valid_iso startB \<and> earlierSecond startA startB \<and>
   runIdOf (toISOString startA) = Some idA \<and> runIdOf (toISOString startB) = Some idB \<and>
   idA < idB \<and> idA \<noteq> idB"
proof -
  have vA: "valid_iso startA" and vB: "valid_iso startB"
    by (simp_all add: valid_iso_def startA_def startB_def)
  have e: "earlierSecond startA startB" by (simp add: earlierSecond_def startA_def startB_def)
  have a: "runIdOf (toISOString startA) = Some idA" by code_simp
  have b: "runIdOf (toISOString startB) = Some idB" by code_simp
  from runId_increasing [OF vA vB] a b e have "idA < idB" "idA \<noteq> idB" by auto
  with vA vB e a b show ?thesis by simp
qed

subsection \<open>Rendering of the load result\<close>

text \<open>
  Claim C2, as stated, fails on the code.  For the target kylix, run A has the null load
  result, run B a load result with an error and run C a successful one.  In the
  availability table of their comparison the cells of A and B are the same cross: no cell
  carries an error, and the errored result is not told from the null one.
\<close>

theorem null_and_error_same_cell:
  "map tr_k6 (run_targets runA) = [None, None] \<and>
   map tr_k6 (run_targets runB) = [Some k6Failed] \<and>
   k6_error k6Failed = Some ''Command failed: k6 run'' \<and>
   compareRuns exampleRunsDir [idA, idB, idC] =
     Inr [Title, Blank, ComparedRuns [idA, idB, idC], Blank,
          TargetHeading ''kylix'', Blank, UrlLine ''http://kylix.local'', Blank,
          PlaywrightHeading, Blank,
          TableHeader [1768730400000, 1768730700000, 1768731000000], TableRule 4,
          MetricRow pageLoad [Worst 245, Best 198, Plain 220],
          MetricRow domContentLoaded [Worst 180, Worst 180, Best 175],
          MetricRow domInteractive [Worst 150, Best 140, Worst 150], Blank,
          K6Heading, Blank, K6TableHeader, K6TableRule,
          K6Row 1768730400000 False, K6Row 1768730700000 False, K6Row 1768731000000 True,
          Blank,
          TargetHeading ''pyxis'', Blank, NotAllRunsNote, Blank]"
  by (simp add: example_defs compare_defs)

text \<open>
  Claim C2, amended.  The summary of a run branches three ways on the load result of a
  target: null gives the line saying that k6 was skipped, a result with an error gives a
  line carrying that error, and any other result gives the table of the completed load
  test.  The comparison branches two ways: for a target that all runs have, the
  availability cell of a run is the check mark when its load result is there, has no error
  and names a metrics file, and the cross otherwise, for a null result and for one with an
  error alike; and the availability table is there only when some run has the check mark.
\<close>

theorem load_result_rendering:
  "generateSummary_k6 None = [K6Skipped, SBlank] \<and>
   (truthy (k6_error r) \<longrightarrow>
      (\<exists>e. k6_error r = Some e \<and> generateSummary_k6 (Some r) = [K6StatusError e, SBlank])) \<and>
   (\<not> truthy (k6_error r) \<longrightarrow>
      generateSummary_k6 (Some r) =
        [K6LoadTests, SBlank, K6MetricValueHeader, K6MetricValueRule, K6Completed,
         K6ResultsFile (k6_metricsFile r), SBlank]) \<and>
   (tm_hasResults (extractTarget t) \<longleftrightarrow>
      (\<exists>r'. tr_k6 t = Some r' \<and> \<not> truthy (k6_error r') \<and> truthy (k6_metricsFile r'))) \<and>
   ((\<forall>run \<in> set runs. key \<in> runKeys run) \<longrightarrow>
      (\<exists>lines. targetSection runs key = Inr lines \<and>
         (\<forall>ts b. K6Row ts b \<in> set lines \<longleftrightarrow>
            (\<exists>run \<in> set runs. k6Available run key) \<and>
            (\<exists>run \<in> set runs. ts = l_timestamp run \<and> b = k6Available run key))))"
proof -
  have 1: "generateSummary_k6 None = [K6Skipped, SBlank]"
    by (simp add: generateSummary_k6_def)
  have 2: "\<exists>e. k6_error r = Some e \<and> generateSummary_k6 (Some r) = [K6StatusError e, SBlank]"
    if "truthy (k6_error r)"
    using that by (cases "k6_error r") (simp_all add: generateSummary_k6_def truthy_def)
  have 3: "generateSummary_k6 (Some r) =
        [K6LoadTests, SBlank, K6MetricValueHeader, K6MetricValueRule, K6Completed,
         K6ResultsFile (k6_metricsFile r), SBlank]"
    if "\<not> truthy (k6_error r)"
    using that by (simp add: generateSummary_k6_def)
  have 4: "tm_hasResults (extractTarget t) \<longleftrightarrow>
      (\<exists>r'. tr_k6 t = Some r' \<and> \<not> truthy (k6_error r') \<and> truthy (k6_metricsFile r'))"
    by (cases "tr_k6 t") (simp_all add: extractTarget_def k6HasResults_def)
  have 5: "\<exists>lines. targetSection runs key = Inr lines \<and>
         (\<forall>ts b. K6Row ts b \<in> set lines \<longleftrightarrow>
            (\<exists>run \<in> set runs. k6Available run key) \<and>
            (\<exists>run \<in> set runs. ts = l_timestamp run \<and> b = k6Available run key))"
    if own: "\<forall>run \<in> set runs. key \<in> runKeys run"
  proof -
    from section_present [OF own] obtain lines where lines: "targetSection runs key = Inr lines"
      by blast
    have "\<forall>ts b. K6Row ts b \<in> set lines \<longleftrightarrow>
            (\<exists>run \<in> set runs. k6Available run key) \<and>
            (\<exists>run \<in> set runs. ts = l_timestamp run \<and> b = k6Available run key)"
      by (intro allI) (rule section_k6_rows [OF own lines])
    with lines show ?thesis by blast
  qed
  from 1 2 3 4 5 show ?thesis by blast
qed

text \<open>
  Claim C2, amended, on the three example runs: the summary tells the failed load run from
  the skipped one, the comparison gives both the cross.
\<close>

theorem load_result_rendering_witness:
  "truthy (k6_error k6Failed) \<and>
   generateSummary_k6 (Some k6Failed) = [K6StatusError ''Command failed: k6 run'', SBlank] \<and>
   generateSummary_k6 None = [K6Skipped, SBlank] \<and>
   \<not> truthy (k6_error k6Succeeded) \<and>
   generateSummary_k6 (Some k6Succeeded) =
     [K6LoadTests, SBlank, K6MetricValueHeader, K6MetricValueRule, K6Completed,
      K6ResultsFile (Some ''results/runs/2026-01-18_10-10-00/kylix-k6-results.json''), SBlank] \<and>
   ''kylix'' \<in> runKeys loadedA \<and> ''kylix'' \<in> runKeys loadedB \<and> ''kylix'' \<in> runKeys loadedC \<and>
   \<not> k6Available loadedA ''kylix'' \<and> \<not> k6Available loadedB ''kylix'' \<and>
   k6Available loadedC ''kylix'' \<and>
   (\<exists>lines. targetSection [loadedA, loadedB, loadedC] ''kylix'' = Inr lines \<and>
      K6Row 1768730400000 False \<in> set lines \<and>
      K6Row 1768730700000 False \<in> set lines \<and>
      K6Row 1768731000000 True \<in> set lines)"
proof -
  let ?runs = "[loadedA, loadedB, loadedC]"
  note inst = load_result_rendering [where runs = ?runs and key = "''kylix''"]
  have f: "truthy (k6_error k6Failed)" by (simp add: k6Failed_def truthy_def)
  have s: "\<not> truthy (k6_error k6Succeeded)" by (simp add: k6Succeeded_def truthy_def)
  have own: "\<forall>run \<in> set ?runs. ''kylix'' \<in> runKeys run"
    by (simp add: example_defs runKeys_def extractMetrics_def setProperty_def)
  have av: "\<not> k6Available loadedA ''kylix''" "\<not> k6Available loadedB ''kylix''"
    "k6Available loadedC ''kylix''"
    by (simp_all add: k6Available_def example_defs extractMetrics_def setProperty_def
        extractTarget_def k6HasResults_def truthy_def)
  have tsA: "l_timestamp loadedA = 1768730400000" and tsB: "l_timestamp loadedB = 1768730700000"
    and tsC: "l_timestamp loadedC = 1768731000000"
    by (simp_all add: example_defs)
  from inst [where r = k6Failed] f
  have 1: "generateSummary_k6 (Some k6Failed) = [K6StatusError ''Command failed: k6 run'', SBlank]"
    by (auto simp: k6Failed_def)
  from inst have 2: "generateSummary_k6 None = [K6Skipped, SBlank]" by blast
  from inst [where r = k6Succeeded] s
  have 3: "generateSummary_k6 (Some k6Succeeded) =
     [K6LoadTests, SBlank, K6MetricValueHeader, K6MetricValueRule, K6Completed,
      K6ResultsFile (Some ''results/runs/2026-01-18_10-10-00/kylix-k6-results.json''), SBlank]"
    by (auto simp: k6Succeeded_def)
  from inst own obtain lines where lines: "targetSection ?runs ''kylix'' = Inr lines"
    and rows: "\<And>ts b. K6Row ts b \<in> set lines \<longleftrightarrow>
            (\<exists>run \<in> set ?runs. k6Available run ''kylix'') \<and>
            (\<exists>run \<in> set ?runs. ts = l_timestamp run \<and> b = k6Available run ''kylix'')"
    by blast
  from rows [of 1768730400000 False] av tsA
  have 4: "K6Row 1768730400000 False \<in> set lines" by auto
  from rows [of 1768730700000 False] av tsB
  have 5: "K6Row 1768730700000 False \<in> set lines" by auto
  from rows [of 1768731000000 True] av tsC
  have 6: "K6Row 1768731000000 True \<in> set lines" by auto
  from lines 4 5 6
  have 7: "\<exists>lines. targetSection ?runs ''kylix'' = Inr lines \<and>
      K6Row 1768730400000 False \<in> set lines \<and>
      K6Row 1768730700000 False \<in> set lines \<and>
      K6Row 1768731000000 True \<in> set lines" by blast
  from own have o: "''kylix'' \<in> runKeys loadedA" "''kylix'' \<in> runKeys loadedB"
    "''kylix'' \<in> runKeys loadedC" by simp_all
  show ?thesis
    by (intro conjI) (rule f s o av 1 2 3 7)+
qed

end
